theory Spec2Isabelle
  imports Main "HOL-Library.Word"
begin

unbundle bit_operations_syntax

section \<open>The SCSI ioctl layer (drivers/scsi/scsi_ioctl.c)\<close>

text \<open>
  A shallow embedding of \<^verbatim>\<open>drivers/scsi/scsi_ioctl.c\<close>. The functions of the file
  are translated one by one and keep their names. Everything the file takes from
  elsewhere in the kernel comes in through two parameters:
  \<^item> \<open>K\<close>, the constants and macros of the headers the file includes (errno values,
    ioctl numbers, opcodes, sense keys, \<open>driver_byte\<close>);
  \<^item> \<open>E\<close>, the functions the file calls but does not define (the execution primitive,
    the host template, the allocator, the recovery predicates).
  The debug macro \<^verbatim>\<open>SCSI_LOG_IOCTL\<close> and the functions under
  \<^verbatim>\<open>CONFIG_UFS_SRPMB\<close> are not modelled.
\<close>

subsection \<open>Constants of the included headers\<close>

type_synonym byte = "8 word"

record kconsts =
  EFAULT :: int
  EINVAL :: int
  EACCES :: int
  ENXIO :: int
  ENODEV :: int
  EAGAIN :: int
  SCSI_IOCTL_SEND_COMMAND :: int
  SCSI_IOCTL_TEST_UNIT_READY :: int
  SCSI_IOCTL_BENCHMARK_COMMAND :: int
  SCSI_IOCTL_SYNC :: int
  SCSI_IOCTL_START_UNIT :: int
  SCSI_IOCTL_STOP_UNIT :: int
  SCSI_IOCTL_GET_IDLUN :: int
  SCSI_IOCTL_GET_BUS_NUMBER :: int
  SCSI_IOCTL_PROBE_HOST :: int
  SCSI_IOCTL_DOORLOCK :: int
  SCSI_IOCTL_DOORUNLOCK :: int
  SCSI_IOCTL_SECURITY_PROTOCOL_IN :: int
  SCSI_IOCTL_SECURITY_PROTOCOL_OUT :: int
  SCSI_IOCTL_GET_PCI :: int
  SG_SCSI_RESET :: int
  SCSI_UFS_REQUEST_SENSE :: int
  ALLOW_MEDIUM_REMOVAL :: byte
  START_STOP :: byte
  SECURITY_PROTOCOL_IN :: byte
  SECURITY_PROTOCOL_OUT :: byte
  SECU_PROT_UFS :: byte
  SECU_PROT_SPEC_CERT_DATA :: "16 word"
  SCSI_REMOVAL_PREVENT :: byte
  SCSI_REMOVAL_ALLOW :: byte
  ILLEGAL_REQUEST :: byte
  NOT_READY :: byte
  UNIT_ATTENTION :: byte
  DRIVER_SENSE :: int
  driver_byte :: "int \<Rightarrow> int"
  HZ :: nat
  START_STOP_TIMEOUT :: nat


text \<open>
  The case labels of a C \<^verbatim>\<open>switch\<close> are pairwise distinct (the compiler rejects a
  duplicate). The model writes each \<^verbatim>\<open>switch\<close> as a chain of tests in the order of
  the source; that the lists below are \<open>distinct\<close> is the side condition on \<open>K\<close>
  under which the chain is the \<^verbatim>\<open>switch\<close>. \<open>ioctl_labels\<close> are the labels of the
  dispatching \<^verbatim>\<open>switch\<close> of \<^verbatim>\<open>scsi_ioctl\<close>, \<open>ioctl_numbers\<close> adds the two ioctl
  numbers that appear only in its first \<^verbatim>\<open>switch\<close>, and \<open>sense_labels\<close> are the
  labels of the \<^verbatim>\<open>switch\<close> on the sense key.
\<close>

definition ioctl_labels :: "kconsts \<Rightarrow> int list" where
  "ioctl_labels K =
     [SCSI_IOCTL_GET_IDLUN K, SCSI_IOCTL_GET_BUS_NUMBER K, SCSI_IOCTL_PROBE_HOST K,
      SCSI_IOCTL_SEND_COMMAND K, SCSI_IOCTL_DOORLOCK K, SCSI_IOCTL_DOORUNLOCK K,
      SCSI_IOCTL_TEST_UNIT_READY K, SCSI_IOCTL_START_UNIT K, SCSI_IOCTL_STOP_UNIT K,
      SCSI_IOCTL_SECURITY_PROTOCOL_IN K, SCSI_IOCTL_SECURITY_PROTOCOL_OUT K,
      SCSI_IOCTL_GET_PCI K, SG_SCSI_RESET K]"

definition ioctl_numbers :: "kconsts \<Rightarrow> int list" where
  "ioctl_numbers K = ioctl_labels K @ [SCSI_IOCTL_BENCHMARK_COMMAND K, SCSI_IOCTL_SYNC K]"

definition sense_labels :: "kconsts \<Rightarrow> byte list" where
  "sense_labels K = [ILLEGAL_REQUEST K, NOT_READY K, UNIT_ATTENTION K]"

text \<open>Constants the file defines itself.\<close>

definition NORMAL_RETRIES :: nat where
  "NORMAL_RETRIES = 5"

definition IOCTL_NORMAL_TIMEOUT :: "kconsts \<Rightarrow> nat" where
  "IOCTL_NORMAL_TIMEOUT K = 10 * HZ K"

definition MAX_BUFFLEN :: "32 word" where
  "MAX_BUFFLEN = 32 * 512"

subsection \<open>User memory and the checked copy primitives\<close>

text \<open>
  User memory is a list of cells, one per address; a cell is \<open>None\<close> where no page is
  mapped. The length of the list is the limit of the user address range, which is all
  that \<^verbatim>\<open>access_ok\<close> tests. Address 0 is the NULL pointer.
\<close>

type_synonym uaddr = nat
type_synonym umem = "byte option list"

definition access_ok :: "umem \<Rightarrow> uaddr \<Rightarrow> nat \<Rightarrow> bool" where
  "access_ok m a n = (a + n \<le> length m)"

definition peek :: "umem \<Rightarrow> uaddr \<Rightarrow> byte option" where
  "peek m a = (if a < length m then m ! a else None)"

text \<open>\<open>load m a n\<close> reads \<open>n\<close> bytes, or faults (\<open>None\<close>) on an unmapped one.\<close>

definition load :: "umem \<Rightarrow> uaddr \<Rightarrow> nat \<Rightarrow> byte list option" where
  "load m a n = those (map (peek m) [a ..< a + n])"

fun poke :: "umem \<Rightarrow> uaddr \<Rightarrow> byte list \<Rightarrow> umem" where
  "poke m a [] = m"
| "poke m a (b # bs) = poke (m[a := Some b]) (Suc a) bs"

text \<open>
  \<^verbatim>\<open>copy_from_user\<close>: \<open>None\<close> when it reports uncopied bytes. The kernel buffer of a
  failed copy is released by every caller without being read, so its contents are
  not part of the model.
\<close>

definition copy_from_user :: "umem \<Rightarrow> uaddr \<Rightarrow> nat \<Rightarrow> byte list option" where
  "copy_from_user m a n = (if access_ok m a n then load m a n else None)"

text \<open>
  \<^verbatim>\<open>copy_to_user\<close> returns the memory and whether every byte was copied. A range that
  fails \<^verbatim>\<open>access_ok\<close> is not touched; otherwise the bytes before the first
  unmapped address are written.
\<close>

definition copy_to_user :: "umem \<Rightarrow> uaddr \<Rightarrow> byte list \<Rightarrow> umem \<times> bool" where
  "copy_to_user m a bs =
     (if \<not> access_ok m a (length bs) then (m, False)
      else let k = length (takeWhile (\<lambda>x. peek m x \<noteq> None) [a ..< a + length bs])
           in (poke m a (take k bs), k = length bs))"

text \<open>
  Integers in user memory are little-endian (the target is arm64); \<open>le32\<close> and
  \<open>of_le32\<close> encode and decode an \<^verbatim>\<open>unsigned int\<close>.
\<close>

definition le32 :: "32 word \<Rightarrow> byte list" where
  "le32 w = [ucast w, ucast (drop_bit 8 w), ucast (drop_bit 16 w), ucast (drop_bit 24 w)]"

definition of_le32 :: "byte list \<Rightarrow> 32 word" where
  "of_le32 bs = word_rcat (rev (take 4 bs))"

text \<open>\<^verbatim>\<open>get_user\<close> and \<^verbatim>\<open>put_user\<close> on a 32-bit object; \<^verbatim>\<open>__put_user\<close> omits the range check.\<close>

definition get_user :: "umem \<Rightarrow> uaddr \<Rightarrow> 32 word option" where
  "get_user m a = map_option of_le32 (copy_from_user m a 4)"

definition put_user_nocheck :: "umem \<Rightarrow> uaddr \<Rightarrow> 32 word \<Rightarrow> umem \<times> bool" where
  "put_user_nocheck m a w =
     (if load m a 4 = None then (m, False) else (poke m a (le32 w), True))"

definition put_user :: "umem \<Rightarrow> uaddr \<Rightarrow> 32 word \<Rightarrow> umem \<times> bool" where
  "put_user m a w = (if access_ok m a 4 then put_user_nocheck m a w else (m, False))"

text \<open>
  A plain C dereference of a user pointer, as \<^verbatim>\<open>ic->inlen\<close> in \<^verbatim>\<open>scsi_ioctl\<close>: no
  range check and no fixup, so an unmapped address is a kernel fault (\<open>None\<close>).
\<close>

definition deref_user32 :: "umem \<Rightarrow> uaddr \<Rightarrow> 32 word option" where
  "deref_user32 m a = map_option of_le32 (load m a 4)"

text \<open>
  Modelled from the spec: the declaration of \<^verbatim>\<open>Scsi_Ioctl_Command\<close> is not in the file.
  The spec gives its layout: two leading length fields (input length, output length)
  followed immediately by the data region. Both lengths are \<^verbatim>\<open>unsigned int\<close>.
\<close>

definition sizeof_Scsi_Ioctl_Command :: nat where
  "sizeof_Scsi_Ioctl_Command = 8"

record Scsi_Ioctl_Command =
  inlen :: "32 word"
  outlen :: "32 word"

definition decode_Scsi_Ioctl_Command :: "byte list \<Rightarrow> Scsi_Ioctl_Command" where
  "decode_Scsi_Ioctl_Command bs = \<lparr>inlen = of_le32 bs, outlen = of_le32 (drop 4 bs)\<rparr>"

text \<open>
  Modelled from the spec: \<^verbatim>\<open>struct scsi_idlun\<close> is not in the file either; it is one
  32-bit word for the packed identification and a separate host-unique-id word.
\<close>

definition sizeof_scsi_idlun :: nat where
  "sizeof_scsi_idlun = 8"

subsection \<open>Device, host and kernel state\<close>

record scsi_device =
  id_sdev :: "32 word"
  lun :: "64 word"
  channel :: "32 word"
  removable :: bool
  lockable :: bool
  locked :: bool
  changed :: bool

record Scsi_Host =
  host_no :: "32 word"
  unique_id :: "32 word"
  wlun_clr_uac :: bool

datatype dma_direction = DMA_NONE | DMA_TO_DEVICE | DMA_FROM_DEVICE

text \<open>
  What a call leaves behind besides its return value: the allocations and releases,
  the commands handed to the execution primitive, and the \<^verbatim>\<open>printk\<close> lines.
\<close>

datatype message =
    Deprecated_ioctl
  | Illegal_request byte byte
  | Return_code int
  | Kmalloc_failed
  | Argument_copy_failed
  | Invalid_bufflen "32 word"
  | Copy_from_user_failed
  | Copy_to_user_failed
  | Prot_in_out_not_set int
  | Secu_prot_return_code int

datatype event =
    Kmalloc nat
  | Kzalloc nat
  | Kfree nat
  | Execute "byte list" dma_direction "byte list option" nat nat nat
  | Printk message

record state =
  sdev :: scsi_device
  host :: Scsi_Host
  umem :: umem
  trace :: "event list"

definition emit :: "event \<Rightarrow> state \<Rightarrow> state" where
  "emit e s = s\<lparr>trace := trace s @ [e]\<rparr>"

text \<open>A call returns an \<^verbatim>\<open>int\<close> and the new state, or stops in a kernel fault.\<close>

datatype outcome = Oops | Return int state

subsection \<open>The functions the file calls\<close>

record scsi_sense_hdr =
  response_code :: byte
  sense_key :: byte
  asc :: byte
  ascq :: byte

record exec_reply =
  reply_result :: int
  reply_sshdr :: scsi_sense_hdr
  reply_data :: "byte list"

datatype capability = CAP_SYS_ADMIN | CAP_SYS_RAWIO

record device =
  dev_name :: string

record extern =
  scsi_execute_req ::
    "state \<Rightarrow> byte list \<Rightarrow> dma_direction \<Rightarrow> byte list option \<Rightarrow> nat \<Rightarrow> nat \<Rightarrow> nat \<Rightarrow> exec_reply"
  scsi_sense_valid :: "scsi_sense_hdr \<Rightarrow> bool"
  hostt_name :: "string option"
  hostt_info :: "(state \<Rightarrow> string option) option"
  hostt_ioctl :: "(state \<Rightarrow> int \<Rightarrow> uaddr \<Rightarrow> int \<times> state) option"
  sg_scsi_ioctl :: "state \<Rightarrow> uaddr \<Rightarrow> int \<times> state"
  scsi_test_unit_ready :: "state \<Rightarrow> nat \<Rightarrow> nat \<Rightarrow> int \<times> state"
  scsi_ioctl_reset :: "state \<Rightarrow> uaddr \<Rightarrow> int \<times> state"
  scsi_get_device :: "state \<Rightarrow> device option"
  capable :: "capability \<Rightarrow> bool"
  kmalloc_ok :: "state \<Rightarrow> nat \<Rightarrow> bool"
  scsi_block_when_processing_errors :: "state \<Rightarrow> bool"
  scsi_host_in_recovery :: "state \<Rightarrow> bool"


text \<open>A C string as bytes, with its terminating NUL.\<close>

definition cstring :: "string \<Rightarrow> byte list" where
  "cstring str = map of_char str @ [0]"

text \<open>
  \<^verbatim>\<open>strncmp\<close> is used only in a test against zero; \<open>strncmp_eq\<close> is that test.
  Both arguments are NUL-terminated arrays of \<^verbatim>\<open>char\<close>: the comparison runs over at
  most \<open>n\<close> characters and stops after a NUL that both strings share.
\<close>

fun strncmp_chars :: "char list \<Rightarrow> char list \<Rightarrow> nat \<Rightarrow> bool" where
  "strncmp_chars xs ys 0 = True"
| "strncmp_chars (x # xs) (y # ys) (Suc n) =
     (if x \<noteq> y then False else if x = CHR 0x00 then True else strncmp_chars xs ys n)"
| "strncmp_chars xs ys (Suc n) = (xs = [] \<and> ys = [])"

definition strncmp_eq :: "string \<Rightarrow> string \<Rightarrow> nat \<Rightarrow> bool" where
  "strncmp_eq a b n = strncmp_chars (a @ [CHR 0x00]) (b @ [CHR 0x00]) n"

subsection \<open>ioctl_probe\<close>

definition ioctl_probe :: "kconsts \<Rightarrow> extern \<Rightarrow> state \<Rightarrow> uaddr \<Rightarrow> int \<times> state" where
  "ioctl_probe K E s buffer =
     (if buffer \<noteq> 0 then
        (case get_user (umem s) buffer of
           None \<Rightarrow> (- EFAULT K, s)
         | Some len \<Rightarrow>
             (let string = (case hostt_info E of Some info \<Rightarrow> info s | None \<Rightarrow> hostt_name E)
              in case string of
                   None \<Rightarrow> (1, s)
                 | Some str \<Rightarrow>
                     (let slen = (of_nat (length str) :: 32 word);
                          len1 = (if len > slen then slen + 1 else len);
                          (m, ok) = copy_to_user (umem s) buffer (take (unat len1) (cstring str))
                      in if ok then (1, s\<lparr>umem := m\<rparr>) else (- EFAULT K, s\<lparr>umem := m\<rparr>))))
      else (1, s))"

subsection \<open>ioctl_internal_command\<close>

text \<open>
  The three labels of the \<^verbatim>\<open>switch\<close> on the sense key that control can fall into,
  from the last to the first: \<^verbatim>\<open>default\<close>, \<^verbatim>\<open>case UNIT_ATTENTION\<close> (which falls
  through to \<^verbatim>\<open>default\<close> for non-removable media) and \<^verbatim>\<open>case NOT_READY\<close> (which
  leaves the \<^verbatim>\<open>switch\<close> for removable media and falls through otherwise).
\<close>

definition sense_default :: "int \<Rightarrow> state \<Rightarrow> int \<times> state" where
  "sense_default result s = (result, emit (Printk (Return_code result)) s)"

definition sense_UNIT_ATTENTION :: "int \<Rightarrow> state \<Rightarrow> int \<times> state" where
  "sense_UNIT_ATTENTION result s =
     (if removable (sdev s) then (0, s\<lparr>sdev := (sdev s)\<lparr>changed := True\<rparr>\<rparr>)
      else sense_default result s)"

definition sense_NOT_READY :: "int \<Rightarrow> state \<Rightarrow> int \<times> state" where
  "sense_NOT_READY result s =
     (if removable (sdev s) then (result, s) else sense_UNIT_ATTENTION result s)"

definition ioctl_internal_command ::
  "kconsts \<Rightarrow> extern \<Rightarrow> state \<Rightarrow> byte list \<Rightarrow> nat \<Rightarrow> nat \<Rightarrow> int \<times> state" where
  "ioctl_internal_command K E s cmd timeout retries =
     (let rep = scsi_execute_req E s cmd DMA_NONE None 0 timeout retries;
          s1 = emit (Execute cmd DMA_NONE None 0 timeout retries) s;
          result = reply_result rep;
          sshdr = reply_sshdr rep
      in if (driver_byte K result AND DRIVER_SENSE K) \<noteq> 0 \<and> scsi_sense_valid E sshdr then
           (if sense_key sshdr = ILLEGAL_REQUEST K then
              (if take 1 cmd = [ALLOW_MEDIUM_REMOVAL K]
               then (result, s1\<lparr>sdev := (sdev s1)\<lparr>lockable := False\<rparr>\<rparr>)
               else (result, emit (Printk (Illegal_request (asc sshdr) (ascq sshdr))) s1))
            else if sense_key sshdr = NOT_READY K then sense_NOT_READY result s1
            else if sense_key sshdr = UNIT_ATTENTION K then sense_UNIT_ATTENTION result s1
            else sense_default result s1)
         else (result, s1))"

subsection \<open>scsi_set_medium_removal\<close>

text \<open>
  \<^verbatim>\<open>scsi_cmd\<close> is an uninitialised array of which the function writes bytes 0 to 5,
  the length of the command; the model hands those six bytes to the executor.
\<close>

definition scsi_set_medium_removal ::
  "kconsts \<Rightarrow> extern \<Rightarrow> state \<Rightarrow> byte \<Rightarrow> int \<times> state" where
  "scsi_set_medium_removal K E s st =
     (if \<not> removable (sdev s) \<or> \<not> lockable (sdev s) then (0, s)
      else
        (let scsi_cmd = [ALLOW_MEDIUM_REMOVAL K, 0, 0, 0, st, 0];
             (ret, s1) = ioctl_internal_command K E s scsi_cmd (IOCTL_NORMAL_TIMEOUT K) NORMAL_RETRIES
         in if ret = 0
            then (ret, s1\<lparr>sdev := (sdev s1)\<lparr>locked := (st = SCSI_REMOVAL_PREVENT K)\<rparr>\<rparr>)
            else (ret, s1)))"

subsection \<open>scsi_ioctl_get_pci\<close>

definition scsi_ioctl_get_pci :: "kconsts \<Rightarrow> extern \<Rightarrow> state \<Rightarrow> uaddr \<Rightarrow> int \<times> state" where
  "scsi_ioctl_get_pci K E s arg =
     (case scsi_get_device E s of
        None \<Rightarrow> (- ENXIO K, s)
      | Some dev \<Rightarrow>
          (let name = dev_name dev;
               (m, ok) = copy_to_user (umem s) arg (take (min (length name) 20) (cstring name))
           in (if ok then 0 else - EFAULT K, s\<lparr>umem := m\<rparr>)))"


subsection \<open>ioctl_secu_prot_command\<close>

text \<open>
  \<^verbatim>\<open>kmalloc\<close> and \<^verbatim>\<open>kzalloc\<close> ask \<open>kmalloc_ok\<close> whether the allocation succeeds; a
  failed one returns NULL (\<open>None\<close>) and leaves no event. \<^verbatim>\<open>kfree\<close> of NULL does
  nothing.
\<close>

definition kzalloc :: "extern \<Rightarrow> state \<Rightarrow> nat \<Rightarrow> byte list option \<times> state" where
  "kzalloc E s n =
     (if kmalloc_ok E s n then (Some (replicate n 0), emit (Kzalloc n) s) else (None, s))"

definition kfree :: "byte list option \<Rightarrow> state \<Rightarrow> state" where
  "kfree buf s = (case buf of None \<Rightarrow> s | Some b \<Rightarrow> emit (Kfree (length b)) s)"

text \<open>The two exit labels: both release the header, the second the data buffer first.\<close>

definition err_pre_buf_alloc :: "int \<Rightarrow> state \<Rightarrow> outcome" where
  "err_pre_buf_alloc result s = Return result (emit (Kfree sizeof_Scsi_Ioctl_Command) s)"

definition err_post_buf_alloc :: "byte list option \<Rightarrow> int \<Rightarrow> state \<Rightarrow> outcome" where
  "err_post_buf_alloc buf result s = err_pre_buf_alloc result (kfree buf s)"

text \<open>
  The buffer after the command: a transfer from the device overwrites the buffer
  with the data received, up to the length of the buffer.
\<close>

definition receive :: "byte list \<Rightarrow> byte list \<Rightarrow> byte list" where
  "receive d b = take (length b) d @ drop (length d) b"

text \<open>
  \<^verbatim>\<open>copy_to_user\<close> from a kernel pointer that may be NULL: the range check comes
  first and fails without reading; reading \<open>n > 0\<close> bytes at NULL is a kernel fault
  (\<open>None\<close>).
\<close>

definition copy_to_user_ptr ::
  "umem \<Rightarrow> uaddr \<Rightarrow> byte list option \<Rightarrow> nat \<Rightarrow> (umem \<times> bool) option" where
  "copy_to_user_ptr m a buf n =
     (case buf of
        Some b \<Rightarrow> Some (copy_to_user m a (take n b))
      | None \<Rightarrow> if \<not> access_ok m a n then Some (m, False)
                else if n = 0 then Some (m, True) else None)"

text \<open>The part of the function from the call of \<^verbatim>\<open>scsi_execute_req\<close> on.\<close>

definition secu_prot_execute ::
  "kconsts \<Rightarrow> extern \<Rightarrow> state \<Rightarrow> byte list \<Rightarrow> int \<Rightarrow> uaddr \<Rightarrow> Scsi_Ioctl_Command \<Rightarrow>
   dma_direction \<Rightarrow> byte list option \<Rightarrow> 32 word \<Rightarrow> nat \<Rightarrow> nat \<Rightarrow> outcome" where
  "secu_prot_execute K E s cmd prot_in_out arg s_ioc_arg dir buf bufflen timeout retries =
     (let rep = scsi_execute_req E s cmd dir buf (unat bufflen) timeout retries;
          s1 = emit (Execute cmd dir buf (unat bufflen) timeout retries) s;
          buf1 = (if dir = DMA_FROM_DEVICE then map_option (receive (reply_data rep)) buf else buf);
          result = reply_result rep;
          finish = (\<lambda>s2.
            let s3 = (if (driver_byte K result AND DRIVER_SENSE K) \<noteq> 0
                         \<and> scsi_sense_valid E (reply_sshdr rep)
                      then emit (Printk (Secu_prot_return_code result)) s2 else s2)
            in err_post_buf_alloc buf1 result s3)
      in if prot_in_out = SCSI_IOCTL_SECURITY_PROTOCOL_IN K then
           (case copy_to_user_ptr (umem s1) (arg + sizeof_Scsi_Ioctl_Command) buf1
                   (unat (inlen s_ioc_arg)) of
              None \<Rightarrow> Oops
            | Some (m, ok) \<Rightarrow>
                if \<not> ok
                then err_post_buf_alloc buf1 (- EFAULT K)
                       (emit (Printk Copy_to_user_failed) (s1\<lparr>umem := m\<rparr>))
                else finish (s1\<lparr>umem := m\<rparr>))
         else finish s1)"

definition ioctl_secu_prot_command ::
  "kconsts \<Rightarrow> extern \<Rightarrow> state \<Rightarrow> byte list \<Rightarrow> int \<Rightarrow> uaddr \<Rightarrow> nat \<Rightarrow> nat \<Rightarrow> outcome" where
  "ioctl_secu_prot_command K E s cmd prot_in_out arg timeout retries =
     (if \<not> kmalloc_ok E s sizeof_Scsi_Ioctl_Command
      then Return (- EFAULT K) (emit (Printk Kmalloc_failed) s)
      else
        (let s1 = emit (Kmalloc sizeof_Scsi_Ioctl_Command) s
         in case copy_from_user (umem s1) arg sizeof_Scsi_Ioctl_Command of
              None \<Rightarrow> err_pre_buf_alloc (- EFAULT K) (emit (Printk Argument_copy_failed) s1)
            | Some bytes \<Rightarrow>
                (let s_ioc_arg = decode_Scsi_Ioctl_Command bytes
                 in if prot_in_out = SCSI_IOCTL_SECURITY_PROTOCOL_IN K then
                      (let bufflen = inlen s_ioc_arg
                       in if bufflen \<le> 0 \<or> bufflen > MAX_BUFFLEN
                          then err_pre_buf_alloc (- EFAULT K)
                                 (emit (Printk (Invalid_bufflen bufflen)) s1)
                          else
                            (let (buf, s2) = kzalloc E s1 (unat bufflen)
                             in secu_prot_execute K E s2 cmd prot_in_out arg s_ioc_arg
                                  DMA_FROM_DEVICE buf bufflen timeout retries))
                    else if prot_in_out = SCSI_IOCTL_SECURITY_PROTOCOL_OUT K then
                      (let bufflen = outlen s_ioc_arg
                       in if bufflen \<le> 0 \<or> bufflen > MAX_BUFFLEN
                          then err_pre_buf_alloc (- EFAULT K)
                                 (emit (Printk (Invalid_bufflen bufflen)) s1)
                          else
                            (let (buf, s2) = kzalloc E s1 (unat bufflen)
                             in case buf of
                                  None \<Rightarrow> Oops
                                | Some b \<Rightarrow>
                                    (case copy_from_user (umem s2)
                                            (arg + sizeof_Scsi_Ioctl_Command)
                                            (unat (outlen s_ioc_arg)) of
                                       None \<Rightarrow>
                                         err_post_buf_alloc buf (- EFAULT K)
                                           (emit (Printk Copy_from_user_failed) s2)
                                     | Some payload \<Rightarrow>
                                         secu_prot_execute K E s2 cmd prot_in_out arg s_ioc_arg
                                           DMA_TO_DEVICE (Some payload) bufflen timeout retries)))
                    else err_pre_buf_alloc (- EFAULT K)
                           (emit (Printk (Prot_in_out_not_set prot_in_out)) s1))))"

subsection \<open>scsi_ioctl\<close>

definition deprecated_ioctls :: "kconsts \<Rightarrow> int list" where
  "deprecated_ioctls K =
     [SCSI_IOCTL_SEND_COMMAND K, SCSI_IOCTL_TEST_UNIT_READY K, SCSI_IOCTL_BENCHMARK_COMMAND K,
      SCSI_IOCTL_SYNC K, SCSI_IOCTL_START_UNIT K, SCSI_IOCTL_STOP_UNIT K]"

definition MAX_COMMAND_SIZE :: nat where
  "MAX_COMMAND_SIZE = 16"

text \<open>
  The command built for \<^verbatim>\<open>SCSI_IOCTL_START_UNIT\<close> (\<open>start = 1\<close>) and
  \<^verbatim>\<open>SCSI_IOCTL_STOP_UNIT\<close> (\<open>start = 0\<close>) in the zeroed \<^verbatim>\<open>scsi_cmd\<close>.
\<close>

definition start_stop_cmd :: "kconsts \<Rightarrow> byte \<Rightarrow> byte list" where
  "start_stop_cmd K start =
     (replicate MAX_COMMAND_SIZE 0)[0 := START_STOP K, 1 := 0, 2 := 0, 3 := 0, 5 := 0, 4 := start]"

text \<open>
  The command built for the two security-protocol ioctls in the zeroed \<^verbatim>\<open>scsi_cmd\<close>;
  \<open>t_len\<close> is an \<^verbatim>\<open>unsigned long\<close> (64 bits on the target) and each element of
  \<^verbatim>\<open>scsi_cmd\<close> keeps the low eight bits of what is assigned to it.
\<close>

definition secu_prot_cmd :: "kconsts \<Rightarrow> int \<Rightarrow> 64 word \<Rightarrow> byte list" where
  "secu_prot_cmd K cmd t_len =
     (let prot_spec = SECU_PROT_SPEC_CERT_DATA K
      in (replicate MAX_COMMAND_SIZE 0)
           [0 := (if cmd = SCSI_IOCTL_SECURITY_PROTOCOL_IN K
                  then SECURITY_PROTOCOL_IN K else SECURITY_PROTOCOL_OUT K),
            1 := SECU_PROT_UFS K,
            2 := ucast (drop_bit 8 prot_spec) AND 0xff,
            3 := ucast prot_spec AND 0xff,
            4 := 0,
            5 := 0,
            6 := ucast (drop_bit 24 t_len) AND 0xff,
            7 := ucast (drop_bit 16 t_len) AND 0xff,
            8 := ucast (drop_bit 8 t_len) AND 0xff,
            9 := ucast t_len AND 0xff,
            10 := 0,
            11 := 0])"

definition scsi_ioctl :: "kconsts \<Rightarrow> extern \<Rightarrow> state \<Rightarrow> int \<Rightarrow> uaddr \<Rightarrow> outcome" where
  "scsi_ioctl K E s0 cmd arg =
     (let s = (if cmd \<in> set (deprecated_ioctls K)
               then emit (Printk Deprecated_ioctl) s0 else s0)
      in
      if cmd = SCSI_IOCTL_GET_IDLUN K then
        (if \<not> access_ok (umem s) arg sizeof_scsi_idlun then Return (- EFAULT K) s
         else
           (let dev_id =
                  (ucast (id_sdev (sdev s) AND 0xff) :: 64 word)
                  + push_bit 8 (lun (sdev s) AND 0xff)
                  + ucast (push_bit 16 (channel (sdev s) AND 0xff))
                  + ucast (push_bit 24 (host_no (host s) AND 0xff));
                m1 = fst (put_user_nocheck (umem s) arg (ucast dev_id));
                m2 = fst (put_user_nocheck m1 (arg + 4) (unique_id (host s)))
            in Return 0 (s\<lparr>umem := m2\<rparr>)))
      else if cmd = SCSI_IOCTL_GET_BUS_NUMBER K then
        (let (m, ok) = put_user (umem s) arg (host_no (host s))
         in Return (if ok then 0 else - EFAULT K) (s\<lparr>umem := m\<rparr>))
      else if cmd = SCSI_IOCTL_PROBE_HOST K then
        (let (r, s1) = ioctl_probe K E s arg in Return r s1)
      else if cmd = SCSI_IOCTL_SEND_COMMAND K then
        (if \<not> capable E CAP_SYS_ADMIN \<or> \<not> capable E CAP_SYS_RAWIO then Return (- EACCES K) s
         else (let (r, s1) = sg_scsi_ioctl E s arg in Return r s1))
      else if cmd = SCSI_IOCTL_DOORLOCK K then
        (let (r, s1) = scsi_set_medium_removal K E s (SCSI_REMOVAL_PREVENT K) in Return r s1)
      else if cmd = SCSI_IOCTL_DOORUNLOCK K then
        (let (r, s1) = scsi_set_medium_removal K E s (SCSI_REMOVAL_ALLOW K) in Return r s1)
      else if cmd = SCSI_IOCTL_TEST_UNIT_READY K then
        (let (r, s1) = scsi_test_unit_ready E s (IOCTL_NORMAL_TIMEOUT K) NORMAL_RETRIES
         in Return r s1)
      else if cmd = SCSI_IOCTL_START_UNIT K then
        (let (r, s1) = ioctl_internal_command K E s (start_stop_cmd K 1)
                         (START_STOP_TIMEOUT K) NORMAL_RETRIES
         in Return r s1)
      else if cmd = SCSI_IOCTL_STOP_UNIT K then
        (let (r, s1) = ioctl_internal_command K E s (start_stop_cmd K 0)
                         (START_STOP_TIMEOUT K) NORMAL_RETRIES
         in Return r s1)
      else if cmd = SCSI_IOCTL_SECURITY_PROTOCOL_IN K
              \<or> cmd = SCSI_IOCTL_SECURITY_PROTOCOL_OUT K then
        (case (if wlun_clr_uac (host s)
               then map_option (\<lambda>f. snd (f s (SCSI_UFS_REQUEST_SENSE K) 0)) (hostt_ioctl E)
               else Some s) of
           None \<Rightarrow> Oops
         | Some s1 \<Rightarrow>
             (case (if cmd = SCSI_IOCTL_SECURITY_PROTOCOL_IN K
                    then deref_user32 (umem s1) arg
                    else deref_user32 (umem s1) (arg + 4)) of
                None \<Rightarrow> Oops
              | Some len \<Rightarrow>
                  ioctl_secu_prot_command K E s1 (secu_prot_cmd K cmd (ucast len)) cmd arg
                    (START_STOP_TIMEOUT K) NORMAL_RETRIES))
      else if cmd = SCSI_IOCTL_GET_PCI K then
        (let (r, s1) = scsi_ioctl_get_pci K E s arg in Return r s1)
      else if cmd = SG_SCSI_RESET K then
        (case hostt_name E of
           None \<Rightarrow> Oops
         | Some name \<Rightarrow>
             if strncmp_eq name ''ufshcd'' 6 then Return (- EINVAL K) s
             else (let (r, s1) = scsi_ioctl_reset E s arg in Return r s1))
      else
        (case hostt_ioctl E of
           Some f \<Rightarrow> (let (r, s1) = f s cmd arg in Return r s1)
         | None \<Rightarrow> Return (- EINVAL K) s))"

subsection \<open>scsi_ioctl_block_when_processing_errors\<close>

definition scsi_ioctl_block_when_processing_errors ::
  "kconsts \<Rightarrow> extern \<Rightarrow> state \<Rightarrow> int \<Rightarrow> bool \<Rightarrow> int" where
  "scsi_ioctl_block_when_processing_errors K E s cmd ndelay =
     (if cmd = SG_SCSI_RESET K \<and> ndelay then
        (if scsi_host_in_recovery E s then - EAGAIN K else 0)
      else
        (if \<not> scsi_block_when_processing_errors E s then - ENODEV K else 0))"


section \<open>A concrete configuration\<close>

text \<open>
  An instance of the header constants (the values of the mainline headers where the
  constant exists there), an environment whose device answers every command with a
  fixed reply, and small states. They are the inputs at which the theorems below are
  instantiated.
\<close>

definition K0 :: kconsts where
  "K0 = \<lparr>EFAULT = 14, EINVAL = 22, EACCES = 13, ENXIO = 6, ENODEV = 19, EAGAIN = 11,
     SCSI_IOCTL_SEND_COMMAND = 1, SCSI_IOCTL_TEST_UNIT_READY = 2,
     SCSI_IOCTL_BENCHMARK_COMMAND = 3, SCSI_IOCTL_SYNC = 4, SCSI_IOCTL_START_UNIT = 5,
     SCSI_IOCTL_STOP_UNIT = 6, SCSI_IOCTL_GET_IDLUN = 0x5382,
     SCSI_IOCTL_GET_BUS_NUMBER = 0x5386, SCSI_IOCTL_PROBE_HOST = 0x5385,
     SCSI_IOCTL_DOORLOCK = 0x5380, SCSI_IOCTL_DOORUNLOCK = 0x5381,
     SCSI_IOCTL_SECURITY_PROTOCOL_IN = 7, SCSI_IOCTL_SECURITY_PROTOCOL_OUT = 8,
     SCSI_IOCTL_GET_PCI = 0x5387, SG_SCSI_RESET = 0x2284, SCSI_UFS_REQUEST_SENSE = 9,
     ALLOW_MEDIUM_REMOVAL = 0x1e, START_STOP = 0x1b, SECURITY_PROTOCOL_IN = 0xa2,
     SECURITY_PROTOCOL_OUT = 0xb5, SECU_PROT_UFS = 0xec, SECU_PROT_SPEC_CERT_DATA = 1,
     SCSI_REMOVAL_PREVENT = 1, SCSI_REMOVAL_ALLOW = 0,
     ILLEGAL_REQUEST = 5, NOT_READY = 2, UNIT_ATTENTION = 6,
     DRIVER_SENSE = 8, driver_byte = (\<lambda>r. drop_bit 24 r AND 0xff),
     HZ = 250, START_STOP_TIMEOUT = 15000\<rparr>"

text \<open>A reply carrying valid sense data with the given key, and a reply without sense.\<close>

definition sense_reply :: "byte \<Rightarrow> exec_reply" where
  "sense_reply key =
     \<lparr>reply_result = 0x08000002,
      reply_sshdr = \<lparr>response_code = 0x70, sense_key = key, asc = 0x3a, ascq = 0\<rparr>,
      reply_data = []\<rparr>"

definition plain_reply :: "int \<Rightarrow> byte list \<Rightarrow> exec_reply" where
  "plain_reply r d =
     \<lparr>reply_result = r,
      reply_sshdr = \<lparr>response_code = 0, sense_key = 0, asc = 0, ascq = 0\<rparr>,
      reply_data = d\<rparr>"

definition E0 :: "exec_reply \<Rightarrow> extern" where
  "E0 rep =
     \<lparr>scsi_execute_req = (\<lambda>s cmd dir buf n t r. rep),
      scsi_sense_valid = (\<lambda>h. response_code h AND 0x70 = 0x70),
      hostt_name = Some ''ufshcd'',
      hostt_info = None,
      hostt_ioctl = None,
      sg_scsi_ioctl = (\<lambda>s a. (0, s)),
      scsi_test_unit_ready = (\<lambda>s t r. (0, s)),
      scsi_ioctl_reset = (\<lambda>s a. (77, s)),
      scsi_get_device = (\<lambda>s. None),
      capable = (\<lambda>c. True),
      kmalloc_ok = (\<lambda>s n. True),
      scsi_block_when_processing_errors = (\<lambda>s. True),
      scsi_host_in_recovery = (\<lambda>s. False)\<rparr>"

definition dev0 :: "bool \<Rightarrow> bool \<Rightarrow> scsi_device" where
  "dev0 rem lck =
     \<lparr>id_sdev = 0, lun = 0, channel = 0, removable = rem, lockable = lck,
      locked = False, changed = False\<rparr>"

definition host0 :: Scsi_Host where
  "host0 = \<lparr>host_no = 0, unique_id = 0, wlun_clr_uac = False\<rparr>"

definition st0 :: "scsi_device \<Rightarrow> umem \<Rightarrow> state" where
  "st0 d m = \<lparr>sdev = d, host = host0, umem = m, trace = []\<rparr>"

text \<open>
  User memory with sixteen unmapped cells (so that address 0 faults) followed by the
  given bytes, and a state over it. The argument of the ioctl is then address 16.
\<close>

definition mem1 :: "byte list \<Rightarrow> umem" where
  "mem1 bs = replicate 16 None @ map Some bs"

definition st1 :: "byte list \<Rightarrow> state" where
  "st1 bs = st0 (dev0 False False) (mem1 bs)"

text \<open>A device-specific ioctl handler, for the hosts that register one.\<close>

definition handler0 :: "state \<Rightarrow> int \<Rightarrow> uaddr \<Rightarrow> int \<times> state" where
  "handler0 s cmd arg = (cmd + 1, s\<lparr>sdev := (sdev s)\<lparr>changed := True\<rparr>\<rparr>)"

section \<open>Sense interpretation\<close>

lemma sense_labels_distinct:
  "distinct (sense_labels K) \<Longrightarrow>
     NOT_READY K \<noteq> ILLEGAL_REQUEST K \<and> UNIT_ATTENTION K \<noteq> ILLEGAL_REQUEST K
     \<and> UNIT_ATTENTION K \<noteq> NOT_READY K"
  by (auto simp: sense_labels_def)

lemma K0_sense_labels: "distinct (sense_labels K0)"
  by (simp add: sense_labels_def K0_def)

lemma sense_reply_flagged:
  "(driver_byte K0 (reply_result (sense_reply key)) AND DRIVER_SENSE K0) \<noteq> 0"
  by (simp add: K0_def sense_reply_def)

lemma sense_reply_valid: "scsi_sense_valid (E0 rep) (reply_sshdr (sense_reply key))"
  by (simp add: E0_def sense_reply_def)

text \<open>
  C3, as amended. A command run by \<open>ioctl_internal_command\<close> whose reply has sense
  data present and valid with the sense key "not ready" returns the result of the
  execution primitive unchanged, on a removable device as on any other. On a removable
  device nothing else happens: no flag changes and nothing is logged. On a
  non-removable device control falls through to the default handling, which logs the
  return code.
\<close>

theorem not_ready_keeps_result:
  assumes "distinct (sense_labels K)"
    and "rep = scsi_execute_req E s cmd DMA_NONE None 0 timeout retries"
    and "(driver_byte K (reply_result rep) AND DRIVER_SENSE K) \<noteq> 0"
    and "scsi_sense_valid E (reply_sshdr rep)"
    and "sense_key (reply_sshdr rep) = NOT_READY K"
  shows "ioctl_internal_command K E s cmd timeout retries =
     (reply_result rep,
      if removable (sdev s) then emit (Execute cmd DMA_NONE None 0 timeout retries) s
      else emit (Printk (Return_code (reply_result rep)))
             (emit (Execute cmd DMA_NONE None 0 timeout retries) s))"
  using assms sense_labels_distinct [of K]
  by (simp add: ioctl_internal_command_def sense_NOT_READY_def sense_UNIT_ATTENTION_def
      sense_default_def emit_def Let_def)

theorem not_ready_keeps_result_witness:
  "ioctl_internal_command K0 (E0 (sense_reply (NOT_READY K0)))
       (st0 (dev0 True True) []) [0x1b, 0, 0, 0, 1, 0] 15000 5 =
     (0x08000002,
      \<lparr>sdev = dev0 True True, host = host0, umem = [],
       trace = [Execute [0x1b, 0, 0, 0, 1, 0] DMA_NONE None 0 15000 5]\<rparr>)
   \<and> ioctl_internal_command K0 (E0 (sense_reply (NOT_READY K0)))
       (st0 (dev0 False True) []) [0x1b, 0, 0, 0, 1, 0] 15000 5 =
     (0x08000002,
      \<lparr>sdev = dev0 False True, host = host0, umem = [],
       trace = [Execute [0x1b, 0, 0, 0, 1, 0] DMA_NONE None 0 15000 5,
                Printk (Return_code 0x08000002)]\<rparr>)"
proof -
  let ?rep = "sense_reply (NOT_READY K0)"
  have k: "sense_key (reply_sshdr ?rep) = NOT_READY K0"
    by (simp add: sense_reply_def)
  have r: "\<And>s cmd. ?rep = scsi_execute_req (E0 ?rep) s cmd DMA_NONE None 0 15000 5"
    by (simp add: E0_def)
  note inst = not_ready_keeps_result
    [OF K0_sense_labels r sense_reply_flagged sense_reply_valid k]
  show ?thesis
    using inst [of "st0 (dev0 True True) []" "[0x1b, 0, 0, 0, 1, 0]"]
      inst [of "st0 (dev0 False True) []" "[0x1b, 0, 0, 0, 1, 0]"]
    by (simp add: st0_def dev0_def emit_def sense_reply_def)
qed

text \<open>
  C3 as the spec states it fails: a removable device, a reply with valid sense data
  and the key "not ready", and the call returns the non-zero result of the execution
  primitive, not success.
\<close>

theorem not_ready_removable_not_downgraded:
  "removable (sdev (st0 (dev0 True True) []))
   \<and> (driver_byte K0 (reply_result (sense_reply (NOT_READY K0))) AND DRIVER_SENSE K0) \<noteq> 0
   \<and> scsi_sense_valid (E0 (sense_reply (NOT_READY K0)))
        (reply_sshdr (sense_reply (NOT_READY K0)))
   \<and> sense_key (reply_sshdr (sense_reply (NOT_READY K0))) = NOT_READY K0
   \<and> fst (ioctl_internal_command K0 (E0 (sense_reply (NOT_READY K0)))
            (st0 (dev0 True True) []) [0x1b, 0, 0, 0, 1, 0] 15000 5) \<noteq> 0"
  by (simp add: ioctl_internal_command_def sense_NOT_READY_def sense_UNIT_ATTENTION_def
      sense_default_def emit_def Let_def K0_def E0_def st0_def dev0_def sense_reply_def)

text \<open>
  C4. A command run by \<open>ioctl_internal_command\<close> whose reply has sense data present
  and valid with the sense key "unit attention": on a removable device the
  \<open>changed\<close> flag becomes true and the call returns 0 whatever the result of the
  execution primitive was; on a non-removable device control falls through to the
  default handling, which logs the return code and returns the result unchanged.
\<close>

theorem unit_attention_removable_changed:
  assumes "distinct (sense_labels K)"
    and "rep = scsi_execute_req E s cmd DMA_NONE None 0 timeout retries"
    and "(driver_byte K (reply_result rep) AND DRIVER_SENSE K) \<noteq> 0"
    and "scsi_sense_valid E (reply_sshdr rep)"
    and "sense_key (reply_sshdr rep) = UNIT_ATTENTION K"
  shows "ioctl_internal_command K E s cmd timeout retries =
     (if removable (sdev s)
      then (0, (emit (Execute cmd DMA_NONE None 0 timeout retries) s)
                 \<lparr>sdev := (sdev s)\<lparr>changed := True\<rparr>\<rparr>)
      else (reply_result rep,
            emit (Printk (Return_code (reply_result rep)))
              (emit (Execute cmd DMA_NONE None 0 timeout retries) s)))"
  using assms sense_labels_distinct [of K]
  by (simp add: ioctl_internal_command_def sense_UNIT_ATTENTION_def
      sense_default_def emit_def Let_def)

theorem unit_attention_removable_changed_witness:
  "ioctl_internal_command K0 (E0 (sense_reply (UNIT_ATTENTION K0)))
       (st0 (dev0 True True) []) [0x1b, 0, 0, 0, 1, 0] 15000 5 =
     (0,
      \<lparr>sdev = (dev0 True True)\<lparr>changed := True\<rparr>, host = host0, umem = [],
       trace = [Execute [0x1b, 0, 0, 0, 1, 0] DMA_NONE None 0 15000 5]\<rparr>)
   \<and> ioctl_internal_command K0 (E0 (sense_reply (UNIT_ATTENTION K0)))
       (st0 (dev0 False True) []) [0x1b, 0, 0, 0, 1, 0] 15000 5 =
     (0x08000002,
      \<lparr>sdev = dev0 False True, host = host0, umem = [],
       trace = [Execute [0x1b, 0, 0, 0, 1, 0] DMA_NONE None 0 15000 5,
                Printk (Return_code 0x08000002)]\<rparr>)"
proof -
  let ?rep = "sense_reply (UNIT_ATTENTION K0)"
  have k: "sense_key (reply_sshdr ?rep) = UNIT_ATTENTION K0"
    by (simp add: sense_reply_def)
  have r: "\<And>s cmd. ?rep = scsi_execute_req (E0 ?rep) s cmd DMA_NONE None 0 15000 5"
    by (simp add: E0_def)
  note inst = unit_attention_removable_changed
    [OF K0_sense_labels r sense_reply_flagged sense_reply_valid k]
  show ?thesis
    using inst [of "st0 (dev0 True True) []" "[0x1b, 0, 0, 0, 1, 0]"]
      inst [of "st0 (dev0 False True) []" "[0x1b, 0, 0, 0, 1, 0]"]
    by (simp add: st0_def dev0_def emit_def sense_reply_def)
qed


section \<open>Medium removal\<close>

lemma K0_ioctl_numbers: "distinct (ioctl_numbers K0)"
  by (simp add: ioctl_numbers_def ioctl_labels_def K0_def)

lemma internal_command_locked:
  "locked (sdev (snd (ioctl_internal_command K E s cmd timeout retries))) = locked (sdev s)"
  by (simp add: ioctl_internal_command_def sense_NOT_READY_def sense_UNIT_ATTENTION_def
      sense_default_def emit_def Let_def)

text \<open>
  C2. \<open>scsi_set_medium_removal\<close> on a removable, lockable device returns what
  \<open>ioctl_internal_command\<close> returns for the prevent/allow command (\<open>ret\<close>, the result
  after sense interpretation). If \<open>ret\<close> is 0, \<open>locked\<close> becomes exactly the requested
  state: true for \<^verbatim>\<open>SCSI_REMOVAL_PREVENT\<close>, false for \<^verbatim>\<open>SCSI_REMOVAL_ALLOW\<close>. If \<open>ret\<close>
  is not 0, \<open>locked\<close> is unchanged. So \<open>locked\<close> turns true only when a prevent
  command has returned 0.
\<close>

theorem medium_removal_sets_locked:
  assumes "removable (sdev s)" and "lockable (sdev s)"
    and "SCSI_REMOVAL_ALLOW K \<noteq> SCSI_REMOVAL_PREVENT K"
    and "ioctl_internal_command K E s [ALLOW_MEDIUM_REMOVAL K, 0, 0, 0, st, 0]
           (IOCTL_NORMAL_TIMEOUT K) NORMAL_RETRIES = (ret, s1)"
    and "scsi_set_medium_removal K E s st = (r, s2)"
  shows "r = ret
     \<and> (ret = 0 \<longrightarrow> locked (sdev s2) = (st = SCSI_REMOVAL_PREVENT K))
     \<and> (ret = 0 \<and> st = SCSI_REMOVAL_PREVENT K \<longrightarrow> locked (sdev s2))
     \<and> (ret = 0 \<and> st = SCSI_REMOVAL_ALLOW K \<longrightarrow> \<not> locked (sdev s2))
     \<and> (ret \<noteq> 0 \<longrightarrow> locked (sdev s2) = locked (sdev s))
     \<and> (locked (sdev s2) \<and> \<not> locked (sdev s) \<longrightarrow> ret = 0 \<and> st = SCSI_REMOVAL_PREVENT K)"
  using assms internal_command_locked [of K E s "[ALLOW_MEDIUM_REMOVAL K, 0, 0, 0, st, 0]"
      "IOCTL_NORMAL_TIMEOUT K" NORMAL_RETRIES]
  by (auto simp: scsi_set_medium_removal_def split: if_splits)


theorem medium_removal_sets_locked_witness:
  "removable (sdev (st0 (dev0 True True) [])) \<and> lockable (sdev (st0 (dev0 True True) []))
   \<and> SCSI_REMOVAL_ALLOW K0 \<noteq> SCSI_REMOVAL_PREVENT K0
   \<and> fst (scsi_set_medium_removal K0 (E0 (plain_reply 0 [])) (st0 (dev0 True True) [])
            (SCSI_REMOVAL_PREVENT K0)) = 0
   \<and> locked (sdev (snd (scsi_set_medium_removal K0 (E0 (plain_reply 0 []))
            (st0 (dev0 True True) []) (SCSI_REMOVAL_PREVENT K0))))
   \<and> fst (scsi_set_medium_removal K0 (E0 (plain_reply 0x70000 [])) (st0 (dev0 True True) [])
            (SCSI_REMOVAL_PREVENT K0)) = 0x70000
   \<and> \<not> locked (sdev (snd (scsi_set_medium_removal K0 (E0 (plain_reply 0x70000 []))
            (st0 (dev0 True True) []) (SCSI_REMOVAL_PREVENT K0))))"
proof -
  let ?s = "st0 (dev0 True True) []"
  let ?cmd = "[ALLOW_MEDIUM_REMOVAL K0, 0, 0, 0, SCSI_REMOVAL_PREVENT K0, 0]"
  have a: "removable (sdev ?s)" and b: "lockable (sdev ?s)"
    by (simp_all add: st0_def dev0_def)
  have c: "SCSI_REMOVAL_ALLOW K0 \<noteq> SCSI_REMOVAL_PREVENT K0"
    by (simp add: K0_def)
  have l: "\<not> locked (sdev ?s)"
    by (simp add: st0_def dev0_def)
  have ok: "fst (ioctl_internal_command K0 (E0 (plain_reply 0 [])) ?s ?cmd
                  (IOCTL_NORMAL_TIMEOUT K0) NORMAL_RETRIES) = 0"
    by (simp add: ioctl_internal_command_def K0_def E0_def plain_reply_def)
  have bad: "fst (ioctl_internal_command K0 (E0 (plain_reply 0x70000 [])) ?s ?cmd
                  (IOCTL_NORMAL_TIMEOUT K0) NORMAL_RETRIES) = 0x70000"
    by (simp add: ioctl_internal_command_def K0_def E0_def plain_reply_def)
  have nz: "(0x70000 :: int) \<noteq> 0" by simp
  note t1 = medium_removal_sets_locked [OF a b c surjective_pairing surjective_pairing,
        of "E0 (plain_reply 0 [])" "SCSI_REMOVAL_PREVENT K0", unfolded ok]
  note t2 = medium_removal_sets_locked [OF a b c surjective_pairing surjective_pairing,
        of "E0 (plain_reply 0x70000 [])" "SCSI_REMOVAL_PREVENT K0", unfolded bad]
  from t1 have g1: "fst (scsi_set_medium_removal K0 (E0 (plain_reply 0 [])) ?s
            (SCSI_REMOVAL_PREVENT K0)) = 0"
    and g2: "locked (sdev (snd (scsi_set_medium_removal K0 (E0 (plain_reply 0 []))
            ?s (SCSI_REMOVAL_PREVENT K0))))"
    by blast+
  from t2 nz l have g3: "fst (scsi_set_medium_removal K0 (E0 (plain_reply 0x70000 [])) ?s
            (SCSI_REMOVAL_PREVENT K0)) = 0x70000"
    and g4: "\<not> locked (sdev (snd (scsi_set_medium_removal K0 (E0 (plain_reply 0x70000 []))
            ?s (SCSI_REMOVAL_PREVENT K0))))"
    by blast+
  from a b c g1 g2 g3 g4 show ?thesis by blast
qed

lemma scsi_ioctl_DOORLOCK:
  assumes "distinct (ioctl_numbers K)"
  shows "scsi_ioctl K E s (SCSI_IOCTL_DOORLOCK K) arg =
     (case scsi_set_medium_removal K E s (SCSI_REMOVAL_PREVENT K) of (r, s1) \<Rightarrow> Return r s1)"
  using assms
  by (auto simp: scsi_ioctl_def ioctl_numbers_def ioctl_labels_def deprecated_ioctls_def)

lemma scsi_ioctl_DOORUNLOCK:
  assumes "distinct (ioctl_numbers K)"
  shows "scsi_ioctl K E s (SCSI_IOCTL_DOORUNLOCK K) arg =
     (case scsi_set_medium_removal K E s (SCSI_REMOVAL_ALLOW K) of (r, s1) \<Rightarrow> Return r s1)"
  using assms
  by (auto simp: scsi_ioctl_def ioctl_numbers_def ioctl_labels_def deprecated_ioctls_def)

text \<open>
  C8. On a device that is not removable or not lockable, \<open>scsi_set_medium_removal\<close>
  returns 0 at once and leaves the whole state as it was: no command is built or
  handed to the execution primitive (the trace gains no event) and no flag of the
  device changes. The same holds for the two ioctls that dispatch to it,
  \<^verbatim>\<open>SCSI_IOCTL_DOORLOCK\<close> and \<^verbatim>\<open>SCSI_IOCTL_DOORUNLOCK\<close>.
\<close>

theorem medium_removal_skipped:
  assumes "\<not> removable (sdev s) \<or> \<not> lockable (sdev s)"
  shows "scsi_set_medium_removal K E s st = (0, s)
     \<and> (distinct (ioctl_numbers K) \<longrightarrow>
          scsi_ioctl K E s (SCSI_IOCTL_DOORLOCK K) arg = Return 0 s
          \<and> scsi_ioctl K E s (SCSI_IOCTL_DOORUNLOCK K) arg = Return 0 s)"
proof -
  have m: "\<And>st. scsi_set_medium_removal K E s st = (0, s)"
    using assms by (auto simp: scsi_set_medium_removal_def)
  show ?thesis
    by (simp add: m scsi_ioctl_DOORLOCK scsi_ioctl_DOORUNLOCK)
qed

theorem medium_removal_skipped_witness:
  "\<not> removable (sdev (st0 (dev0 False True) []))
   \<and> \<not> lockable (sdev (st0 (dev0 True False) []))
   \<and> distinct (ioctl_numbers K0)
   \<and> scsi_set_medium_removal K0 (E0 (plain_reply 0 [])) (st0 (dev0 False True) []) 1
       = (0, st0 (dev0 False True) [])
   \<and> scsi_ioctl K0 (E0 (plain_reply 0 [])) (st0 (dev0 False True) []) 0x5380 0
       = Return 0 (st0 (dev0 False True) [])
   \<and> scsi_ioctl K0 (E0 (plain_reply 0 [])) (st0 (dev0 True False) []) 0x5381 0
       = Return 0 (st0 (dev0 True False) [])"
proof -
  have a: "\<not> removable (sdev (st0 (dev0 False True) []))"
    and b: "\<not> lockable (sdev (st0 (dev0 True False) []))"
    by (simp_all add: st0_def dev0_def)
  have k: "SCSI_IOCTL_DOORLOCK K0 = 0x5380" "SCSI_IOCTL_DOORUNLOCK K0 = 0x5381"
    by (simp_all add: K0_def)
  note t1 = medium_removal_skipped [OF disjI1 [OF a], of K0 "E0 (plain_reply 0 [])" 1 0]
  note t2 = medium_removal_skipped [OF disjI2 [OF b], of K0 "E0 (plain_reply 0 [])" 1 0]
  have g1: "scsi_set_medium_removal K0 (E0 (plain_reply 0 [])) (st0 (dev0 False True) []) 1
       = (0, st0 (dev0 False True) [])"
    by (rule t1 [THEN conjunct1])
  have g2: "scsi_ioctl K0 (E0 (plain_reply 0 [])) (st0 (dev0 False True) []) 0x5380 0
       = Return 0 (st0 (dev0 False True) [])"
    using mp [OF t1 [THEN conjunct2] K0_ioctl_numbers, THEN conjunct1] by (simp only: k)
  have g3: "scsi_ioctl K0 (E0 (plain_reply 0 [])) (st0 (dev0 True False) []) 0x5381 0
       = Return 0 (st0 (dev0 True False) [])"
    using mp [OF t2 [THEN conjunct2] K0_ioctl_numbers, THEN conjunct2] by (simp only: k)
  show ?thesis
    by (intro conjI a b K0_ioctl_numbers g1 g2 g3)
qed

section \<open>The recovery gate\<close>

text \<open>
  C9. \<open>scsi_ioctl_block_when_processing_errors\<close>: a raw reset from a non-blocking
  caller returns \<^verbatim>\<open>-EAGAIN\<close> when host recovery is in progress. Every other call (any
  other command, and a raw reset from a blocking caller) returns \<^verbatim>\<open>-ENODEV\<close> when
  \<open>scsi_block_when_processing_errors\<close> reports the device unusable. All remaining
  calls return 0.
\<close>

theorem recovery_gate:
  "scsi_ioctl_block_when_processing_errors K E s cmd ndelay =
     (if cmd = SG_SCSI_RESET K \<and> ndelay \<and> scsi_host_in_recovery E s then - EAGAIN K
      else if \<not> (cmd = SG_SCSI_RESET K \<and> ndelay) \<and> \<not> scsi_block_when_processing_errors E s
      then - ENODEV K
      else 0)"
  by (simp add: scsi_ioctl_block_when_processing_errors_def)

theorem recovery_gate_witness:
  "scsi_ioctl_block_when_processing_errors K0
      ((E0 (plain_reply 0 []))\<lparr>scsi_host_in_recovery := (\<lambda>s. True)\<rparr>) (st0 (dev0 True True) []) (SG_SCSI_RESET K0) True = - 11
   \<and> scsi_ioctl_block_when_processing_errors K0
      ((E0 (plain_reply 0 []))\<lparr>scsi_block_when_processing_errors := (\<lambda>s. False)\<rparr>) (st0 (dev0 True True) []) (SCSI_IOCTL_START_UNIT K0) True = - 19
   \<and> scsi_ioctl_block_when_processing_errors K0
      ((E0 (plain_reply 0 []))\<lparr>scsi_block_when_processing_errors := (\<lambda>s. False)\<rparr>) (st0 (dev0 True True) []) (SG_SCSI_RESET K0) False = - 19
   \<and> scsi_ioctl_block_when_processing_errors K0
      ((E0 (plain_reply 0 []))\<lparr>scsi_block_when_processing_errors := (\<lambda>s. False)\<rparr>) (st0 (dev0 True True) []) (SG_SCSI_RESET K0) True = 0
   \<and> scsi_ioctl_block_when_processing_errors K0 (E0 (plain_reply 0 [])) (st0 (dev0 True True) []) (SCSI_IOCTL_START_UNIT K0) False = 0"
  using recovery_gate [of K0 "(E0 (plain_reply 0 []))\<lparr>scsi_host_in_recovery := (\<lambda>s. True)\<rparr>" "st0 (dev0 True True) []" "SG_SCSI_RESET K0" True]
    recovery_gate [of K0 "(E0 (plain_reply 0 []))\<lparr>scsi_block_when_processing_errors := (\<lambda>s. False)\<rparr>" "st0 (dev0 True True) []" "SCSI_IOCTL_START_UNIT K0" True]
    recovery_gate [of K0 "(E0 (plain_reply 0 []))\<lparr>scsi_block_when_processing_errors := (\<lambda>s. False)\<rparr>" "st0 (dev0 True True) []" "SG_SCSI_RESET K0" False]
    recovery_gate [of K0 "(E0 (plain_reply 0 []))\<lparr>scsi_block_when_processing_errors := (\<lambda>s. False)\<rparr>" "st0 (dev0 True True) []" "SG_SCSI_RESET K0" True]
    recovery_gate [of K0 "E0 (plain_reply 0 [])" "st0 (dev0 True True) []" "SCSI_IOCTL_START_UNIT K0" False]
  by (simp add: K0_def E0_def)


section \<open>The dispatcher\<close>

text \<open>
  \<^verbatim>\<open>strncmp(name, "ufshcd", 6) == 0\<close> holds exactly when the first six characters
  of the name are \<^verbatim>\<open>ufshcd\<close>.
\<close>

lemma strncmp_chars_take:
  "n \<le> length ys \<Longrightarrow> CHR 0x00 \<notin> set ys \<Longrightarrow>
   strncmp_chars (xs @ [CHR 0x00]) (ys @ [CHR 0x00]) n \<longleftrightarrow> take n xs = take n ys"
proof (induction n arbitrary: xs ys)
  case 0
  then show ?case by simp
next
  case (Suc n)
  then obtain y ys' where ys: "ys = y # ys'" by (cases ys) auto
  with Suc.prems have y: "y \<noteq> CHR 0x00" and n: "n \<le> length ys'" and z: "CHR 0x00 \<notin> set ys'"
    by auto
  show ?case
  proof (cases xs)
    case Nil
    with ys y show ?thesis by auto
  next
    case (Cons x xs')
    with ys y Suc.IH [OF n z, of xs'] show ?thesis by auto
  qed
qed

lemma strncmp_ufshcd: "strncmp_eq name ''ufshcd'' 6 \<longleftrightarrow> take 6 name = ''ufshcd''"
  using strncmp_chars_take [of 6 "''ufshcd''" name] by (simp add: strncmp_eq_def)

lemma SG_SCSI_RESET_label:
  assumes "distinct (ioctl_numbers K)"
  shows "SG_SCSI_RESET K \<notin> set (deprecated_ioctls K)"
    and "SG_SCSI_RESET K \<notin> set (butlast (ioctl_labels K))"
  using assms
  by (auto simp: ioctl_numbers_def ioctl_labels_def deprecated_ioctls_def)

lemma scsi_ioctl_SG_SCSI_RESET:
  assumes "distinct (ioctl_numbers K)" and "hostt_name E = Some name"
  shows "scsi_ioctl K E s (SG_SCSI_RESET K) arg =
     (if strncmp_eq name ''ufshcd'' 6 then Return (- EINVAL K) s
      else Return (fst (scsi_ioctl_reset E s arg)) (snd (scsi_ioctl_reset E s arg)))"
  using SG_SCSI_RESET_label [OF assms(1)] assms(2)
  by (simp add: scsi_ioctl_def ioctl_labels_def split_beta)

text \<open>
  C5. \<open>scsi_ioctl\<close> with \<^verbatim>\<open>SG_SCSI_RESET\<close> on a host whose template name matches
  \<^verbatim>\<open>ufshcd\<close> returns \<^verbatim>\<open>-EINVAL\<close> and leaves the state unchanged, whatever the state
  (recovery included) and the argument are; on any other name it returns what
  \<open>scsi_ioctl_reset\<close> returns. The name matches when \<^verbatim>\<open>strncmp\<close> over six characters
  finds no difference, that is when it begins with \<^verbatim>\<open>ufshcd\<close>; the name \<^verbatim>\<open>ufshcd\<close>
  itself matches.
\<close>

theorem reset_rejected_for_ufshcd:
  assumes "distinct (ioctl_numbers K)" and "hostt_name E = Some name"
  shows "strncmp_eq name ''ufshcd'' 6 = (take 6 name = ''ufshcd'')
     \<and> (strncmp_eq name ''ufshcd'' 6 \<longrightarrow>
          scsi_ioctl K E s (SG_SCSI_RESET K) arg = Return (- EINVAL K) s)
     \<and> (name = ''ufshcd'' \<longrightarrow>
          scsi_ioctl K E s (SG_SCSI_RESET K) arg = Return (- EINVAL K) s)
     \<and> (\<not> strncmp_eq name ''ufshcd'' 6 \<longrightarrow>
          scsi_ioctl K E s (SG_SCSI_RESET K) arg =
            Return (fst (scsi_ioctl_reset E s arg)) (snd (scsi_ioctl_reset E s arg)))"
  using assms
  by (simp add: scsi_ioctl_SG_SCSI_RESET strncmp_ufshcd)

theorem reset_rejected_for_ufshcd_witness:
  "distinct (ioctl_numbers K0)
   \<and> hostt_name (E0 (plain_reply 0 [])) = Some ''ufshcd''
   \<and> strncmp_eq ''ufshcd'' ''ufshcd'' 6
   \<and> scsi_ioctl K0 (E0 (plain_reply 0 [])) (st0 (dev0 True True) []) 0x2284 0
        = Return (- 22) (st0 (dev0 True True) [])
   \<and> hostt_name ((E0 (plain_reply 0 []))\<lparr>hostt_name := Some ''ahci''\<rparr>) = Some ''ahci''
   \<and> \<not> strncmp_eq ''ahci'' ''ufshcd'' 6
   \<and> scsi_ioctl K0 ((E0 (plain_reply 0 []))\<lparr>hostt_name := Some ''ahci''\<rparr>)
        (st0 (dev0 True True) []) 0x2284 0
        = Return 77 (st0 (dev0 True True) [])"
proof -
  let ?E = "E0 (plain_reply 0 [])"
  let ?E' = "?E\<lparr>hostt_name := Some ''ahci''\<rparr>"
  let ?s = "st0 (dev0 True True) []"
  have n: "hostt_name ?E = Some ''ufshcd''" and n': "hostt_name ?E' = Some ''ahci''"
    by (simp_all add: E0_def)
  have k: "SG_SCSI_RESET K0 = 0x2284" "EINVAL K0 = 22"
    by (simp_all add: K0_def)
  have r: "scsi_ioctl_reset ?E' ?s 0 = (77, ?s)"
    by (simp add: E0_def)
  note t1 = reset_rejected_for_ufshcd [OF K0_ioctl_numbers n, of ?s 0, unfolded k]
  note t2 = reset_rejected_for_ufshcd [OF K0_ioctl_numbers n', of ?s 0, unfolded k r]
  from t1 have g1: "strncmp_eq ''ufshcd'' ''ufshcd'' 6"
    and g2: "scsi_ioctl K0 ?E ?s 0x2284 0 = Return (- 22) ?s"
    by simp_all
  from t2 have g3: "\<not> strncmp_eq ''ahci'' ''ufshcd'' 6"
    and g4: "scsi_ioctl K0 ?E' ?s 0x2284 0 = Return 77 ?s"
    by simp_all
  show ?thesis by (intro conjI K0_ioctl_numbers n n' g1 g2 g3 g4)
qed

text \<open>
  C6, as amended. For a command code that is none of the labels of the dispatching
  \<^verbatim>\<open>switch\<close>, \<open>scsi_ioctl\<close> calls the handler of the host template when there is one
  and returns its result; when there is none it returns \<^verbatim>\<open>-EINVAL\<close>. (The two
  deprecated codes without a label are logged first.)
\<close>

theorem unknown_ioctl_default:
  assumes "cmd \<notin> set (ioctl_labels K)"
    and "s1 = (if cmd \<in> set (deprecated_ioctls K) then emit (Printk Deprecated_ioctl) s else s)"
  shows "(\<forall>f. hostt_ioctl E = Some f \<longrightarrow>
            scsi_ioctl K E s cmd arg = Return (fst (f s1 cmd arg)) (snd (f s1 cmd arg)))
     \<and> (hostt_ioctl E = None \<longrightarrow> scsi_ioctl K E s cmd arg = Return (- EINVAL K) s1)"
  using assms
  by (simp add: scsi_ioctl_def ioctl_labels_def Let_def split_beta)

theorem unknown_ioctl_default_witness:
  "0x1234 \<notin> set (ioctl_labels K0)
   \<and> hostt_ioctl ((E0 (plain_reply 0 []))\<lparr>hostt_ioctl := Some handler0\<rparr>) = Some handler0
   \<and> scsi_ioctl K0 ((E0 (plain_reply 0 []))\<lparr>hostt_ioctl := Some handler0\<rparr>)
        (st0 (dev0 True True) []) 0x1234 0
        = Return 0x1235 (st0 ((dev0 True True)\<lparr>changed := True\<rparr>) [])
   \<and> hostt_ioctl (E0 (plain_reply 0 [])) = None
   \<and> scsi_ioctl K0 (E0 (plain_reply 0 [])) (st0 (dev0 True True) []) 0x1234 0
        = Return (- 22) (st0 (dev0 True True) [])"
proof -
  let ?E = "E0 (plain_reply 0 [])"
  let ?E' = "?E\<lparr>hostt_ioctl := Some handler0\<rparr>"
  let ?s = "st0 (dev0 True True) []"
  have c: "0x1234 \<notin> set (ioctl_labels K0)"
    by (simp add: ioctl_labels_def K0_def)
  have d: "?s = (if 0x1234 \<in> set (deprecated_ioctls K0)
                 then emit (Printk Deprecated_ioctl) ?s else ?s)"
    by (simp add: deprecated_ioctls_def K0_def)
  have h: "hostt_ioctl ?E = None" and h': "hostt_ioctl ?E' = Some handler0"
    by (simp_all add: E0_def)
  have k: "EINVAL K0 = 22"
    by (simp add: K0_def)
  have v: "handler0 ?s 0x1234 0 = (0x1235, st0 ((dev0 True True)\<lparr>changed := True\<rparr>) [])"
    by (simp add: handler0_def st0_def)
  from unknown_ioctl_default [OF c d, of ?E' 0] h' v
  have g1: "scsi_ioctl K0 ?E' ?s 0x1234 0
              = Return 0x1235 (st0 ((dev0 True True)\<lparr>changed := True\<rparr>) [])"
    by simp
  from unknown_ioctl_default [OF c d, of ?E 0] h k
  have g2: "scsi_ioctl K0 ?E ?s 0x1234 0 = Return (- 22) ?s"
    by simp
  show ?thesis by (intro conjI c h h' g1 g2)
qed

text \<open>
  C6 as the spec states it fails: with no handler registered an unrecognized code gets
  \<^verbatim>\<open>-EINVAL\<close>, the very outcome of the rejected reset of C5, and not an error of its
  own.
\<close>

theorem unknown_ioctl_returns_EINVAL:
  "0x1234 \<notin> set (ioctl_labels K0)
   \<and> hostt_ioctl (E0 (plain_reply 0 [])) = None
   \<and> scsi_ioctl K0 (E0 (plain_reply 0 [])) (st0 (dev0 True True) []) 0x1234 0
        = Return (- EINVAL K0) (st0 (dev0 True True) [])
   \<and> scsi_ioctl K0 (E0 (plain_reply 0 [])) (st0 (dev0 True True) []) 0x1234 0
        = scsi_ioctl K0 (E0 (plain_reply 0 [])) (st0 (dev0 True True) []) (SG_SCSI_RESET K0) 0"
  by (simp add: scsi_ioctl_def ioctl_labels_def deprecated_ioctls_def K0_def E0_def
      strncmp_ufshcd)

section \<open>User memory\<close>

lemma those_eq_Some: "those xs = Some ys \<longleftrightarrow> xs = map Some ys"
proof (induction xs arbitrary: ys)
  case Nil
  then show ?case by auto
next
  case (Cons x xs)
  then show ?case by (cases x; cases ys) auto
qed

lemma load_eq_Some:
  "load m a n = Some bs \<longleftrightarrow> length bs = n \<and> (\<forall>i<n. peek m (a + i) = Some (bs ! i))"
proof -
  have "load m a n = Some bs \<longleftrightarrow> map (peek m) [a ..< a + n] = map Some bs"
    by (simp add: load_def those_eq_Some)
  also have "\<dots> \<longleftrightarrow> length bs = n \<and> (\<forall>i<n. peek m (a + i) = Some (bs ! i))"
    by (auto simp: list_eq_iff_nth_eq)
  finally show ?thesis .
qed

lemma load_length: "load m a n = Some bs \<Longrightarrow> length bs = n"
  by (simp add: load_eq_Some)

lemma copy_from_user_length: "copy_from_user m a n = Some bs \<Longrightarrow> length bs = n"
  by (auto simp: copy_from_user_def load_length split: if_splits)

lemma length_poke [simp]: "length (poke m a bs) = length m"
  by (induction bs arbitrary: m a) auto





lemma length_receive [simp]: "length (receive d b) = length b"
  by (simp add: receive_def)

lemma word_len_valid:
  "\<not> (L \<le> 0 \<or> L > MAX_BUFFLEN) \<longleftrightarrow> 0 < L \<and> L \<le> (MAX_BUFFLEN :: 32 word)"
  by (auto simp: word_greater_zero_iff)

lemma load_mem1:
  assumes "16 \<le> a" and "a + k \<le> 16 + length bs"
  shows "load (mem1 bs) a k = Some (take k (drop (a - 16) bs))"
  using assms
  by (auto simp: load_eq_Some peek_def mem1_def nth_append)

lemma copy_from_user_mem1:
  assumes "16 \<le> a" and "a + k \<le> 16 + length bs"
  shows "copy_from_user (mem1 bs) a k = Some (take k (drop (a - 16) bs))"
  using assms by (simp add: copy_from_user_def access_ok_def load_mem1) (simp add: mem1_def)


lemma of_le32_bytes:
  "of_le32 (b0 # b1 # b2 # b3 # bs) = word_rcat [b3, b2, b1, b0]"
  by (simp add: of_le32_def)

lemma umem_st1 [simp]: "umem (st1 bs) = mem1 bs" and trace_st1 [simp]: "trace (st1 bs) = []"
  by (simp_all add: st1_def st0_def)

lemma kmalloc_ok_E0 [simp]: "kmalloc_ok (E0 rep) s n"
  by (simp add: E0_def)

section \<open>Security-protocol transfers\<close>

lemma secu_prot_execute_cases:
  "secu_prot_execute K E s cmd prot arg hdr dir (Some b) bufflen timeout retries =
     (let rep = scsi_execute_req E s cmd dir (Some b) (unat bufflen) timeout retries;
          s1 = emit (Execute cmd dir (Some b) (unat bufflen) timeout retries) s;
          b1 = (if dir = DMA_FROM_DEVICE then receive (reply_data rep) b else b);
          logged = (\<lambda>s2. if (driver_byte K (reply_result rep) AND DRIVER_SENSE K) \<noteq> 0
                              \<and> scsi_sense_valid E (reply_sshdr rep)
                           then emit (Printk (Secu_prot_return_code (reply_result rep))) s2
                           else s2);
          release = (\<lambda>s2. emit (Kfree sizeof_Scsi_Ioctl_Command) (emit (Kfree (length b)) s2))
      in if prot = SCSI_IOCTL_SECURITY_PROTOCOL_IN K then
           (let (m, ok) = copy_to_user (umem s1) (arg + sizeof_Scsi_Ioctl_Command)
                            (take (unat (inlen hdr)) b1)
            in if ok then Return (reply_result rep) (release (logged (s1\<lparr>umem := m\<rparr>)))
               else Return (- EFAULT K)
                      (release (emit (Printk Copy_to_user_failed) (s1\<lparr>umem := m\<rparr>))))
         else Return (reply_result rep) (release (logged s1)))"
  by (simp add: secu_prot_execute_def copy_to_user_ptr_def err_post_buf_alloc_def
      err_pre_buf_alloc_def kfree_def Let_def split_beta)

lemma secu_prot_execute_trace:
  "case secu_prot_execute K E s cmd prot arg hdr dir (Some b) bufflen timeout retries of
     Oops \<Rightarrow> False
   | Return r s' \<Rightarrow>
       take (Suc (length (trace s))) (trace s')
         = trace s @ [Execute cmd dir (Some b) (unat bufflen) timeout retries]"
  by (simp add: secu_prot_execute_cases emit_def Let_def split_beta)


lemma secu_prot_bad_length:
  assumes "kmalloc_ok E s sizeof_Scsi_Ioctl_Command"
    and "copy_from_user (umem s) arg sizeof_Scsi_Ioctl_Command = Some bytes"
    and "prot = SCSI_IOCTL_SECURITY_PROTOCOL_IN K \<or> prot = SCSI_IOCTL_SECURITY_PROTOCOL_OUT K"
    and "L = (if prot = SCSI_IOCTL_SECURITY_PROTOCOL_IN K
              then inlen (decode_Scsi_Ioctl_Command bytes)
              else outlen (decode_Scsi_Ioctl_Command bytes))"
    and "L = 0 \<or> MAX_BUFFLEN < L"
  shows "ioctl_secu_prot_command K E s cmd prot arg timeout retries =
     Return (- EFAULT K)
       (s\<lparr>trace := trace s @ [Kmalloc sizeof_Scsi_Ioctl_Command, Printk (Invalid_bufflen L),
                                Kfree sizeof_Scsi_Ioctl_Command]\<rparr>)"
proof (cases "prot = SCSI_IOCTL_SECURITY_PROTOCOL_IN K")
  case True
  with assms(4,5) have b: "inlen (decode_Scsi_Ioctl_Command bytes) \<le> 0
      \<or> MAX_BUFFLEN < inlen (decode_Scsi_Ioctl_Command bytes)"
    and l: "L = inlen (decode_Scsi_Ioctl_Command bytes)"
    by auto
  show ?thesis
    unfolding l using assms(1,2) True b
    by (simp add: ioctl_secu_prot_command_def err_pre_buf_alloc_def emit_def Let_def)
next
  case False
  with assms(3) have o: "prot = SCSI_IOCTL_SECURITY_PROTOCOL_OUT K" by simp
  from False assms(4,5) have b: "outlen (decode_Scsi_Ioctl_Command bytes) \<le> 0
      \<or> MAX_BUFFLEN < outlen (decode_Scsi_Ioctl_Command bytes)"
    and l: "L = outlen (decode_Scsi_Ioctl_Command bytes)"
    by auto
  show ?thesis
    unfolding l using assms(1,2) False o b
    by (simp add: ioctl_secu_prot_command_def err_pre_buf_alloc_def emit_def Let_def)
qed

lemma secu_prot_in_runs:
  assumes "kmalloc_ok E s sizeof_Scsi_Ioctl_Command"
    and "copy_from_user (umem s) arg sizeof_Scsi_Ioctl_Command = Some bytes"
    and "prot = SCSI_IOCTL_SECURITY_PROTOCOL_IN K"
    and "L = inlen (decode_Scsi_Ioctl_Command bytes)"
    and "0 < L" and "L \<le> MAX_BUFFLEN"
    and "kmalloc_ok E (emit (Kmalloc sizeof_Scsi_Ioctl_Command) s) (unat L)"
  shows "ioctl_secu_prot_command K E s cmd prot arg timeout retries =
     secu_prot_execute K E
       (emit (Kzalloc (unat L)) (emit (Kmalloc sizeof_Scsi_Ioctl_Command) s))
       cmd prot arg (decode_Scsi_Ioctl_Command bytes) DMA_FROM_DEVICE
       (Some (replicate (unat L) 0)) L timeout retries"
proof -
  from assms(5,6) have "\<not> (L \<le> 0 \<or> MAX_BUFFLEN < L)"
    by (auto simp: word_greater_zero_iff)
  with assms show ?thesis
    by (simp add: ioctl_secu_prot_command_def kzalloc_def emit_def Let_def)
qed

lemma secu_prot_out_runs:
  assumes "kmalloc_ok E s sizeof_Scsi_Ioctl_Command"
    and "copy_from_user (umem s) arg sizeof_Scsi_Ioctl_Command = Some bytes"
    and "prot = SCSI_IOCTL_SECURITY_PROTOCOL_OUT K"
    and "prot \<noteq> SCSI_IOCTL_SECURITY_PROTOCOL_IN K"
    and "L = outlen (decode_Scsi_Ioctl_Command bytes)"
    and "0 < L" and "L \<le> MAX_BUFFLEN"
    and "kmalloc_ok E (emit (Kmalloc sizeof_Scsi_Ioctl_Command) s) (unat L)"
    and "copy_from_user (umem s) (arg + sizeof_Scsi_Ioctl_Command) (unat L) = Some payload"
  shows "ioctl_secu_prot_command K E s cmd prot arg timeout retries =
     secu_prot_execute K E
       (emit (Kzalloc (unat L)) (emit (Kmalloc sizeof_Scsi_Ioctl_Command) s))
       cmd prot arg (decode_Scsi_Ioctl_Command bytes) DMA_TO_DEVICE
       (Some payload) L timeout retries"
proof -
  from assms(6,7) have "\<not> (L \<le> 0 \<or> MAX_BUFFLEN < L)"
    by (auto simp: word_greater_zero_iff)
  with assms show ?thesis
    by (simp add: ioctl_secu_prot_command_def kzalloc_def emit_def Let_def)
qed

lemma K0_directions:
  "SCSI_IOCTL_SECURITY_PROTOCOL_IN K0 \<noteq> SCSI_IOCTL_SECURITY_PROTOCOL_OUT K0"
  by (simp add: K0_def)

lemma K0_errnos: "EFAULT K0 = 14" "EINVAL K0 = 22"
  by (simp_all add: K0_def)

lemma K0_values:
  "SCSI_IOCTL_SECURITY_PROTOCOL_IN K0 = 7" "SCSI_IOCTL_SECURITY_PROTOCOL_OUT K0 = 8"
  "SECURITY_PROTOCOL_IN K0 = 0xa2" "SECURITY_PROTOCOL_OUT K0 = 0xb5"
  "SECU_PROT_UFS K0 = 0xec" "SECU_PROT_SPEC_CERT_DATA K0 = 1"
  "START_STOP_TIMEOUT K0 = 15000"
  by (simp_all add: K0_def)

text \<open>
  C1, as amended. \<open>ioctl_secu_prot_command\<close>, once the header is allocated and read,
  takes the declared length \<open>L\<close> from \<open>inlen\<close> (in) or \<open>outlen\<close> (out). If \<open>L\<close> is 0 or
  exceeds \<open>MAX_BUFFLEN\<close> the call returns \<^verbatim>\<open>-EFAULT\<close>; the trace shows the header
  allocated, the complaint and the header released, and no data buffer allocated. If
  \<open>0 < L \<le> MAX_BUFFLEN\<close> and the data buffer can be allocated, a buffer of exactly
  \<open>L\<close> bytes is allocated and the command is executed with \<open>L\<close> bytes in the
  declared direction: from the device into the zeroed buffer (in), or to the device
  with the \<open>L\<close> bytes read from user memory just past the header (out, provided
  these bytes can be read).
\<close>

theorem secu_prot_length_check:
  assumes "kmalloc_ok E s sizeof_Scsi_Ioctl_Command"
    and "copy_from_user (umem s) arg sizeof_Scsi_Ioctl_Command = Some bytes"
    and "SCSI_IOCTL_SECURITY_PROTOCOL_IN K \<noteq> SCSI_IOCTL_SECURITY_PROTOCOL_OUT K"
    and "prot = SCSI_IOCTL_SECURITY_PROTOCOL_IN K \<or> prot = SCSI_IOCTL_SECURITY_PROTOCOL_OUT K"
    and "L = (if prot = SCSI_IOCTL_SECURITY_PROTOCOL_IN K
              then inlen (decode_Scsi_Ioctl_Command bytes)
              else outlen (decode_Scsi_Ioctl_Command bytes))"
    and "out = ioctl_secu_prot_command K E s cmd prot arg timeout retries"
  shows
    "(L = 0 \<or> MAX_BUFFLEN < L \<longrightarrow>
        out = Return (- EFAULT K)
                (s\<lparr>trace := trace s @ [Kmalloc sizeof_Scsi_Ioctl_Command,
                                         Printk (Invalid_bufflen L),
                                         Kfree sizeof_Scsi_Ioctl_Command]\<rparr>))
     \<and> (0 < L \<and> L \<le> MAX_BUFFLEN
          \<and> kmalloc_ok E (emit (Kmalloc sizeof_Scsi_Ioctl_Command) s) (unat L)
          \<and> prot = SCSI_IOCTL_SECURITY_PROTOCOL_IN K \<longrightarrow>
        (case out of
           Oops \<Rightarrow> False
         | Return r s' \<Rightarrow>
             take (length (trace s) + 3) (trace s') =
               trace s @ [Kmalloc sizeof_Scsi_Ioctl_Command, Kzalloc (unat L),
                          Execute cmd DMA_FROM_DEVICE (Some (replicate (unat L) 0)) (unat L)
                            timeout retries]))
     \<and> (0 < L \<and> L \<le> MAX_BUFFLEN
          \<and> kmalloc_ok E (emit (Kmalloc sizeof_Scsi_Ioctl_Command) s) (unat L)
          \<and> prot = SCSI_IOCTL_SECURITY_PROTOCOL_OUT K
          \<and> copy_from_user (umem s) (arg + sizeof_Scsi_Ioctl_Command) (unat L) = Some payload \<longrightarrow>
        length payload = unat L
        \<and> (case out of
             Oops \<Rightarrow> False
           | Return r s' \<Rightarrow>
               take (length (trace s) + 3) (trace s') =
                 trace s @ [Kmalloc sizeof_Scsi_Ioctl_Command, Kzalloc (unat L),
                            Execute cmd DMA_TO_DEVICE (Some payload) (unat L)
                              timeout retries]))"
proof (intro conjI impI)
  assume "L = 0 \<or> MAX_BUFFLEN < L"
  with assms show "out = Return (- EFAULT K)
        (s\<lparr>trace := trace s @ [Kmalloc sizeof_Scsi_Ioctl_Command, Printk (Invalid_bufflen L),
                                 Kfree sizeof_Scsi_Ioctl_Command]\<rparr>)"
    by (simp only: secu_prot_bad_length)
next
  let ?s2 = "emit (Kzalloc (unat L)) (emit (Kmalloc sizeof_Scsi_Ioctl_Command) s)"
  assume a: "0 < L \<and> L \<le> MAX_BUFFLEN
          \<and> kmalloc_ok E (emit (Kmalloc sizeof_Scsi_Ioctl_Command) s) (unat L)
          \<and> prot = SCSI_IOCTL_SECURITY_PROTOCOL_IN K"
  with assms have "out = secu_prot_execute K E ?s2 cmd prot arg (decode_Scsi_Ioctl_Command bytes)
       DMA_FROM_DEVICE (Some (replicate (unat L) 0)) L timeout retries"
    by (simp add: secu_prot_in_runs)
  with secu_prot_execute_trace [where K = K and E = E and s = ?s2 and cmd = cmd
      and prot = prot and arg = arg and hdr = "decode_Scsi_Ioctl_Command bytes"
      and dir = DMA_FROM_DEVICE and b = "replicate (unat L) 0" and bufflen = L
      and timeout = timeout and retries = retries]
  show "case out of
           Oops \<Rightarrow> False
         | Return r s' \<Rightarrow>
             take (length (trace s) + 3) (trace s') =
               trace s @ [Kmalloc sizeof_Scsi_Ioctl_Command, Kzalloc (unat L),
                          Execute cmd DMA_FROM_DEVICE (Some (replicate (unat L) 0)) (unat L)
                            timeout retries]"
    by (simp add: emit_def numeral_3_eq_3 split: outcome.splits)
next
  assume a: "0 < L \<and> L \<le> MAX_BUFFLEN
          \<and> kmalloc_ok E (emit (Kmalloc sizeof_Scsi_Ioctl_Command) s) (unat L)
          \<and> prot = SCSI_IOCTL_SECURITY_PROTOCOL_OUT K
          \<and> copy_from_user (umem s) (arg + sizeof_Scsi_Ioctl_Command) (unat L) = Some payload"
  then have "copy_from_user (umem s) (arg + sizeof_Scsi_Ioctl_Command) (unat L) = Some payload"
    by simp
  then show "length payload = unat L"
    by (rule copy_from_user_length)
next
  let ?s2 = "emit (Kzalloc (unat L)) (emit (Kmalloc sizeof_Scsi_Ioctl_Command) s)"
  assume a: "0 < L \<and> L \<le> MAX_BUFFLEN
          \<and> kmalloc_ok E (emit (Kmalloc sizeof_Scsi_Ioctl_Command) s) (unat L)
          \<and> prot = SCSI_IOCTL_SECURITY_PROTOCOL_OUT K
          \<and> copy_from_user (umem s) (arg + sizeof_Scsi_Ioctl_Command) (unat L) = Some payload"
  with assms have "out = secu_prot_execute K E ?s2 cmd prot arg (decode_Scsi_Ioctl_Command bytes)
       DMA_TO_DEVICE (Some payload) L timeout retries"
    by (simp add: secu_prot_out_runs)
  with secu_prot_execute_trace [where K = K and E = E and s = ?s2 and cmd = cmd
      and prot = prot and arg = arg and hdr = "decode_Scsi_Ioctl_Command bytes"
      and dir = DMA_TO_DEVICE and b = payload and bufflen = L
      and timeout = timeout and retries = retries]
  show "case out of
             Oops \<Rightarrow> False
           | Return r s' \<Rightarrow>
               take (length (trace s) + 3) (trace s') =
                 trace s @ [Kmalloc sizeof_Scsi_Ioctl_Command, Kzalloc (unat L),
                            Execute cmd DMA_TO_DEVICE (Some payload) (unat L)
                              timeout retries]"
    by (simp add: emit_def numeral_3_eq_3 split: outcome.splits)
qed

theorem secu_prot_length_check_witness:
  "ioctl_secu_prot_command K0 (E0 (plain_reply 0 [1, 2, 3, 4]))
        (st1 [1, 0x40, 0, 0, 2, 0, 0, 0, 0xaa, 0xbb, 0, 0])
        (secu_prot_cmd K0 (SCSI_IOCTL_SECURITY_PROTOCOL_IN K0) 0x4001)
        (SCSI_IOCTL_SECURITY_PROTOCOL_IN K0) 16 15000 5
     = Return (- EFAULT K0)
         ((st1 [1, 0x40, 0, 0, 2, 0, 0, 0, 0xaa, 0xbb, 0, 0])
            \<lparr>trace := [Kmalloc 8, Printk (Invalid_bufflen 0x4001), Kfree 8]\<rparr>)
   \<and> (case ioctl_secu_prot_command K0 (E0 (plain_reply 0 [1, 2, 3, 4]))
              (st1 [4, 0, 0, 0, 2, 0, 0, 0, 0xaa, 0xbb, 0, 0])
              (secu_prot_cmd K0 (SCSI_IOCTL_SECURITY_PROTOCOL_IN K0) 4)
              (SCSI_IOCTL_SECURITY_PROTOCOL_IN K0) 16 15000 5 of
         Oops \<Rightarrow> False
       | Return r s' \<Rightarrow>
           take 3 (trace s') =
             [Kmalloc 8, Kzalloc 4,
              Execute (secu_prot_cmd K0 (SCSI_IOCTL_SECURITY_PROTOCOL_IN K0) 4)
                DMA_FROM_DEVICE (Some [0, 0, 0, 0]) 4 15000 5])
   \<and> (case ioctl_secu_prot_command K0 (E0 (plain_reply 0 []))
              (st1 [4, 0, 0, 0, 2, 0, 0, 0, 0xaa, 0xbb, 0, 0])
              (secu_prot_cmd K0 (SCSI_IOCTL_SECURITY_PROTOCOL_OUT K0) 2)
              (SCSI_IOCTL_SECURITY_PROTOCOL_OUT K0) 16 15000 5 of
         Oops \<Rightarrow> False
       | Return r s' \<Rightarrow>
           take 3 (trace s') =
             [Kmalloc 8, Kzalloc 2,
              Execute (secu_prot_cmd K0 (SCSI_IOCTL_SECURITY_PROTOCOL_OUT K0) 2)
                DMA_TO_DEVICE (Some [0xaa, 0xbb]) 2 15000 5])"
proof -
  let ?IN = "SCSI_IOCTL_SECURITY_PROTOCOL_IN K0"
  let ?OUT = "SCSI_IOCTL_SECURITY_PROTOCOL_OUT K0"
  let ?big = "st1 [1, 0x40, 0, 0, 2, 0, 0, 0, 0xaa, 0xbb, 0, 0]"
  let ?s = "st1 [4, 0, 0, 0, 2, 0, 0, 0, 0xaa, 0xbb, 0, 0]"
  note d = K0_directions
  have h1: "copy_from_user (umem ?big) 16 sizeof_Scsi_Ioctl_Command
              = Some [1, 0x40, 0, 0, 2, 0, 0, 0]"
    by (simp add: copy_from_user_mem1 sizeof_Scsi_Ioctl_Command_def)
  have l1: "0x4001 = (if ?IN = ?IN
                      then inlen (decode_Scsi_Ioctl_Command [1, 0x40, 0, 0, 2, 0, 0, 0])
                      else outlen (decode_Scsi_Ioctl_Command [1, 0x40, 0, 0, 2, 0, 0, 0]))"
    by (simp add: decode_Scsi_Ioctl_Command_def of_le32_bytes word_rcat_def)
  have b1: "(0x4001 :: 32 word) = 0 \<or> MAX_BUFFLEN < 0x4001"
    by (simp add: MAX_BUFFLEN_def)
  note T1 = secu_prot_length_check [OF kmalloc_ok_E0 h1 d disjI1 [OF refl] l1 refl,
      where cmd = "secu_prot_cmd K0 ?IN 0x4001" and timeout = 15000 and retries = 5]
  have g1: "ioctl_secu_prot_command K0 (E0 (plain_reply 0 [1, 2, 3, 4])) ?big
        (secu_prot_cmd K0 ?IN 0x4001) ?IN 16 15000 5
     = Return (- EFAULT K0)
         (?big\<lparr>trace := [Kmalloc 8, Printk (Invalid_bufflen 0x4001), Kfree 8]\<rparr>)"
    using mp [OF T1 [THEN conjunct1] b1]
    by (simp add: sizeof_Scsi_Ioctl_Command_def)
  have h2: "copy_from_user (umem ?s) 16 sizeof_Scsi_Ioctl_Command
              = Some [4, 0, 0, 0, 2, 0, 0, 0]"
    by (simp add: copy_from_user_mem1 sizeof_Scsi_Ioctl_Command_def)
  have l2: "4 = (if ?IN = ?IN then inlen (decode_Scsi_Ioctl_Command [4, 0, 0, 0, 2, 0, 0, 0])
                 else outlen (decode_Scsi_Ioctl_Command [4, 0, 0, 0, 2, 0, 0, 0]))"
    by (simp add: decode_Scsi_Ioctl_Command_def of_le32_bytes word_rcat_def)
  have l3: "2 = (if ?OUT = ?IN then inlen (decode_Scsi_Ioctl_Command [4, 0, 0, 0, 2, 0, 0, 0])
                 else outlen (decode_Scsi_Ioctl_Command [4, 0, 0, 0, 2, 0, 0, 0]))"
    by (simp add: decode_Scsi_Ioctl_Command_def of_le32_bytes word_rcat_def K0_def)
  have b2: "0 < (4 :: 32 word) \<and> 4 \<le> MAX_BUFFLEN
      \<and> kmalloc_ok (E0 (plain_reply 0 [1, 2, 3, 4]))
           (emit (Kmalloc sizeof_Scsi_Ioctl_Command) ?s) (unat (4 :: 32 word))
      \<and> ?IN = ?IN"
    by (intro conjI kmalloc_ok_E0 refl) (simp_all add: MAX_BUFFLEN_def)
  have p3: "copy_from_user (umem ?s) (16 + sizeof_Scsi_Ioctl_Command) (unat (2 :: 32 word))
              = Some [0xaa, 0xbb]"
    by (simp add: copy_from_user_mem1 sizeof_Scsi_Ioctl_Command_def)
  have b3: "0 < (2 :: 32 word) \<and> 2 \<le> MAX_BUFFLEN
      \<and> kmalloc_ok (E0 (plain_reply 0 []))
           (emit (Kmalloc sizeof_Scsi_Ioctl_Command) ?s) (unat (2 :: 32 word))
      \<and> ?OUT = ?OUT
      \<and> copy_from_user (umem ?s) (16 + sizeof_Scsi_Ioctl_Command) (unat (2 :: 32 word))
            = Some [0xaa, 0xbb]"
    by (intro conjI kmalloc_ok_E0 refl p3) (simp_all add: MAX_BUFFLEN_def)
  have z4: "replicate 4 (0 :: byte) = [0, 0, 0, 0]"
    by (simp add: numeral_eq_Suc)
  note T2 = secu_prot_length_check [OF kmalloc_ok_E0 h2 d disjI1 [OF refl] l2 refl,
      where cmd = "secu_prot_cmd K0 ?IN 4" and timeout = 15000 and retries = 5]
  note T3 = secu_prot_length_check [OF kmalloc_ok_E0 h2 d disjI2 [OF refl] l3 refl,
      where cmd = "secu_prot_cmd K0 ?OUT 2" and timeout = 15000 and retries = 5
        and payload = "[0xaa, 0xbb]"]
  have g2: "case ioctl_secu_prot_command K0 (E0 (plain_reply 0 [1, 2, 3, 4])) ?s
              (secu_prot_cmd K0 ?IN 4) ?IN 16 15000 5 of
         Oops \<Rightarrow> False
       | Return r s' \<Rightarrow>
           take 3 (trace s') =
             [Kmalloc 8, Kzalloc 4,
              Execute (secu_prot_cmd K0 ?IN 4) DMA_FROM_DEVICE (Some [0, 0, 0, 0]) 4 15000 5]"
    using mp [OF T2 [THEN conjunct2, THEN conjunct1] b2]
    by (simp add: sizeof_Scsi_Ioctl_Command_def z4 split: outcome.splits)
  have g3: "case ioctl_secu_prot_command K0 (E0 (plain_reply 0 [])) ?s
              (secu_prot_cmd K0 ?OUT 2) ?OUT 16 15000 5 of
         Oops \<Rightarrow> False
       | Return r s' \<Rightarrow>
           take 3 (trace s') =
             [Kmalloc 8, Kzalloc 2,
              Execute (secu_prot_cmd K0 ?OUT 2) DMA_TO_DEVICE (Some [0xaa, 0xbb]) 2 15000 5]"
    using mp [OF T3 [THEN conjunct2, THEN conjunct2] b3, THEN conjunct2]
    by (simp add: sizeof_Scsi_Ioctl_Command_def split: outcome.splits)
  show ?thesis
    by (intro conjI g1 g2 g3)
qed

text \<open>
  C1 as the spec states it fails: a security-protocol-in request whose header declares
  the length 0 is refused with \<^verbatim>\<open>-EFAULT\<close>, which is not \<^verbatim>\<open>-EINVAL\<close>.
\<close>

theorem secu_prot_zero_length_EFAULT:
  "copy_from_user (umem (st1 [0, 0, 0, 0, 2, 0, 0, 0, 0xaa, 0xbb, 0, 0])) 16
       sizeof_Scsi_Ioctl_Command = Some [0, 0, 0, 0, 2, 0, 0, 0]
   \<and> inlen (decode_Scsi_Ioctl_Command [0, 0, 0, 0, 2, 0, 0, 0]) = 0
   \<and> ioctl_secu_prot_command K0 (E0 (plain_reply 0 [1, 2, 3, 4]))
        (st1 [0, 0, 0, 0, 2, 0, 0, 0, 0xaa, 0xbb, 0, 0])
        (secu_prot_cmd K0 (SCSI_IOCTL_SECURITY_PROTOCOL_IN K0) 0)
        (SCSI_IOCTL_SECURITY_PROTOCOL_IN K0) 16 15000 5
       = Return (- EFAULT K0)
           ((st1 [0, 0, 0, 0, 2, 0, 0, 0, 0xaa, 0xbb, 0, 0])
              \<lparr>trace := [Kmalloc 8, Printk (Invalid_bufflen 0), Kfree 8]\<rparr>)
   \<and> - EFAULT K0 \<noteq> - EINVAL K0"
proof -
  let ?IN = "SCSI_IOCTL_SECURITY_PROTOCOL_IN K0"
  let ?s = "st1 [0, 0, 0, 0, 2, 0, 0, 0, 0xaa, 0xbb, 0, 0]"
  have h: "copy_from_user (umem ?s) 16 sizeof_Scsi_Ioctl_Command = Some [0, 0, 0, 0, 2, 0, 0, 0]"
    by (simp add: copy_from_user_mem1 sizeof_Scsi_Ioctl_Command_def)
  have l: "inlen (decode_Scsi_Ioctl_Command [0, 0, 0, 0, 2, 0, 0, 0]) = 0"
    by (simp add: decode_Scsi_Ioctl_Command_def of_le32_bytes word_rcat_def)
  have l': "0 = (if ?IN = ?IN then inlen (decode_Scsi_Ioctl_Command [0, 0, 0, 0, 2, 0, 0, 0])
                 else outlen (decode_Scsi_Ioctl_Command [0, 0, 0, 0, 2, 0, 0, 0]))"
    by (simp add: l)
  have r: "ioctl_secu_prot_command K0 (E0 (plain_reply 0 [1, 2, 3, 4])) ?s
        (secu_prot_cmd K0 ?IN 0) ?IN 16 15000 5
       = Return (- EFAULT K0) (?s\<lparr>trace := [Kmalloc 8, Printk (Invalid_bufflen 0), Kfree 8]\<rparr>)"
    using secu_prot_bad_length [OF kmalloc_ok_E0 h disjI1 [OF refl] l' disjI1 [OF refl],
        where cmd = "secu_prot_cmd K0 ?IN 0" and timeout = 15000 and retries = 5]
    by (simp add: sizeof_Scsi_Ioctl_Command_def)
  have e: "- EFAULT K0 \<noteq> - EINVAL K0"
    by (simp add: K0_errnos)
  show ?thesis
    by (intro conjI h l r e)
qed




section \<open>The security-protocol command descriptor\<close>

lemma byte_mask [simp]: "(b :: byte) AND 0xff = b"
proof -
  have "(0xff :: byte) = - 1" by simp
  then show ?thesis by (simp only: and.right_neutral)
qed

lemma bit_word_rcat:
  "bit (word_rcat (ws :: 'a::len word list) :: 'b::len word) n \<longleftrightarrow>
     n < LENGTH('b) \<and> n div LENGTH('a) < length ws
     \<and> bit (rev ws ! (n div LENGTH('a))) (n mod LENGTH('a))"
  by (simp add: word_rcat_def bit_word_of_int_iff bit_horner_sum_uint_exp_iff
      del: horner_sum_simps)

lemma rcat2:
  "word_rcat [ucast (drop_bit 8 w) :: byte, ucast w] = (w :: 16 word)"
proof (rule bit_word_eqI)
  fix n assume n: "n < LENGTH(16)"
  then consider "n < 8" | "8 \<le> n" "n < 16" by fastforce
  then show "bit (word_rcat [ucast (drop_bit 8 w) :: byte, ucast w] :: 16 word) n = bit w n"
  proof cases
    case 1
    then show ?thesis by (simp add: bit_word_rcat bit_simps)
  next
    case 2
    then have d: "n div 8 = 1" and m: "n mod 8 = n - 8"
      by (simp_all add: div_nat_eqI mod_if)
    from 2 show ?thesis
      by (auto simp add: bit_word_rcat d m bit_simps)
  qed
qed

lemma rcat4:
  "word_rcat [ucast (drop_bit 24 w) :: byte, ucast (drop_bit 16 w), ucast (drop_bit 8 w), ucast w]
     = (ucast (w :: 64 word) :: 32 word)"
proof (rule bit_word_eqI)
  fix n assume n: "n < LENGTH(32)"
  then consider "n < 8" | "8 \<le> n" "n < 16" | "16 \<le> n" "n < 24" | "24 \<le> n" "n < 32"
    by fastforce
  then show "bit (word_rcat [ucast (drop_bit 24 w) :: byte, ucast (drop_bit 16 w),
                ucast (drop_bit 8 w), ucast w] :: 32 word) n
             = bit (ucast w :: 32 word) n"
  proof cases
    case 1
    then show ?thesis by (simp add: bit_word_rcat bit_simps)
  next
    case 2
    then have d: "n div 8 = 1" and m: "n mod 8 = n - 8"
      by (simp_all add: div_nat_eqI mod_if)
    from 2 show ?thesis
      by (auto simp add: bit_word_rcat d m bit_simps)
  next
    case 3
    then have d: "n div 8 = 2" and m: "n mod 8 = n - 16"
      by (simp_all add: div_nat_eqI mod_nat_eqI)
    from 3 show ?thesis
      by (auto simp add: bit_word_rcat d m bit_simps)
  next
    case 4
    then have d: "n div 8 = 3" and m: "n mod 8 = n - 24"
      by (simp_all add: div_nat_eqI mod_nat_eqI)
    from 4 show ?thesis
      by (auto simp add: bit_word_rcat d m bit_simps)
  qed
qed


lemma scsi_ioctl_SECURITY_PROTOCOL:
  assumes "distinct (ioctl_numbers K)"
    and "cmd = SCSI_IOCTL_SECURITY_PROTOCOL_IN K \<or> cmd = SCSI_IOCTL_SECURITY_PROTOCOL_OUT K"
  shows "scsi_ioctl K E s cmd arg =
        (case (if wlun_clr_uac (host s)
               then map_option (\<lambda>f. snd (f s (SCSI_UFS_REQUEST_SENSE K) 0)) (hostt_ioctl E)
               else Some s) of
           None \<Rightarrow> Oops
         | Some s1 \<Rightarrow>
             (case (if cmd = SCSI_IOCTL_SECURITY_PROTOCOL_IN K
                    then deref_user32 (umem s1) arg
                    else deref_user32 (umem s1) (arg + 4)) of
                None \<Rightarrow> Oops
              | Some len \<Rightarrow>
                  ioctl_secu_prot_command K E s1 (secu_prot_cmd K cmd (ucast len)) cmd arg
                    (START_STOP_TIMEOUT K) NORMAL_RETRIES))"
proof -
  from assms have "cmd \<notin> set (deprecated_ioctls K)"
    and "cmd \<notin> set (take 9 (ioctl_labels K))"
    by (auto simp: ioctl_numbers_def ioctl_labels_def deprecated_ioctls_def)
  with assms(2) show ?thesis
    by (simp add: scsi_ioctl_def ioctl_labels_def)
qed

text \<open>
  C7. A security-protocol ioctl that reaches the builder (the optional call of the
  host's handler returned and the length could be read at the argument) runs
  \<open>ioctl_secu_prot_command\<close> with the command built from that length. For any
  \<open>t_len\<close> the command built has sixteen bytes, of which byte 0 is the opcode of the
  direction, byte 1 the protocol id, bytes 2-3 the protocol-specific value in
  big-endian order, bytes 4-5 zero, bytes 6-9 the low 32 bits of \<open>t_len\<close> in
  big-endian order, and bytes 10-11 zero.
\<close>

theorem secu_prot_cdb_layout:
  "(distinct (ioctl_numbers K)
      \<and> (cmd = SCSI_IOCTL_SECURITY_PROTOCOL_IN K \<or> cmd = SCSI_IOCTL_SECURITY_PROTOCOL_OUT K)
      \<and> (if wlun_clr_uac (host s)
          then map_option (\<lambda>f. snd (f s (SCSI_UFS_REQUEST_SENSE K) 0)) (hostt_ioctl E)
          else Some s) = Some s1
      \<and> (if cmd = SCSI_IOCTL_SECURITY_PROTOCOL_IN K
          then deref_user32 (umem s1) arg else deref_user32 (umem s1) (arg + 4)) = Some len
    \<longrightarrow> scsi_ioctl K E s cmd arg =
          ioctl_secu_prot_command K E s1 (secu_prot_cmd K cmd (ucast len)) cmd arg
            (START_STOP_TIMEOUT K) NORMAL_RETRIES)
   \<and> (let c = secu_prot_cmd K cmd t_len
       in length c = 16
          \<and> c ! 0 = (if cmd = SCSI_IOCTL_SECURITY_PROTOCOL_IN K
                     then SECURITY_PROTOCOL_IN K else SECURITY_PROTOCOL_OUT K)
          \<and> c ! 1 = SECU_PROT_UFS K
          \<and> word_rcat [c ! 2, c ! 3] = SECU_PROT_SPEC_CERT_DATA K
          \<and> c ! 4 = 0 \<and> c ! 5 = 0
          \<and> word_rcat [c ! 6, c ! 7, c ! 8, c ! 9] = (ucast t_len :: 32 word)
          \<and> c ! 10 = 0 \<and> c ! 11 = 0)"
proof (intro conjI impI)
  assume a: "distinct (ioctl_numbers K)
      \<and> (cmd = SCSI_IOCTL_SECURITY_PROTOCOL_IN K \<or> cmd = SCSI_IOCTL_SECURITY_PROTOCOL_OUT K)
      \<and> (if wlun_clr_uac (host s)
          then map_option (\<lambda>f. snd (f s (SCSI_UFS_REQUEST_SENSE K) 0)) (hostt_ioctl E)
          else Some s) = Some s1
      \<and> (if cmd = SCSI_IOCTL_SECURITY_PROTOCOL_IN K
          then deref_user32 (umem s1) arg else deref_user32 (umem s1) (arg + 4)) = Some len"
  then have d: "distinct (ioctl_numbers K)"
    and c: "cmd = SCSI_IOCTL_SECURITY_PROTOCOL_IN K \<or> cmd = SCSI_IOCTL_SECURITY_PROTOCOL_OUT K"
    by simp_all
  from a show "scsi_ioctl K E s cmd arg =
          ioctl_secu_prot_command K E s1 (secu_prot_cmd K cmd (ucast len)) cmd arg
            (START_STOP_TIMEOUT K) NORMAL_RETRIES"
    by (simp only: scsi_ioctl_SECURITY_PROTOCOL [OF d c] option.case)
next
  show "let c = secu_prot_cmd K cmd t_len
       in length c = 16
          \<and> c ! 0 = (if cmd = SCSI_IOCTL_SECURITY_PROTOCOL_IN K
                     then SECURITY_PROTOCOL_IN K else SECURITY_PROTOCOL_OUT K)
          \<and> c ! 1 = SECU_PROT_UFS K
          \<and> word_rcat [c ! 2, c ! 3] = SECU_PROT_SPEC_CERT_DATA K
          \<and> c ! 4 = 0 \<and> c ! 5 = 0
          \<and> word_rcat [c ! 6, c ! 7, c ! 8, c ! 9] = (ucast t_len :: 32 word)
          \<and> c ! 10 = 0 \<and> c ! 11 = 0"
    by (simp add: secu_prot_cmd_def MAX_COMMAND_SIZE_def Let_def rcat2 rcat4)
qed

theorem secu_prot_cdb_layout_witness:
  "scsi_ioctl K0 (E0 (plain_reply 0 [1, 2, 3, 4]))
       (st1 [4, 0, 0, 0, 2, 0, 0, 0, 0xaa, 0xbb, 0, 0]) 7 16 =
     ioctl_secu_prot_command K0 (E0 (plain_reply 0 [1, 2, 3, 4]))
       (st1 [4, 0, 0, 0, 2, 0, 0, 0, 0xaa, 0xbb, 0, 0]) (secu_prot_cmd K0 7 4) 7 16 15000 5
   \<and> length (secu_prot_cmd K0 7 0x12345678) = 16
   \<and> secu_prot_cmd K0 7 0x12345678 ! 0 = 0xa2
   \<and> secu_prot_cmd K0 7 0x12345678 ! 1 = 0xec
   \<and> word_rcat [secu_prot_cmd K0 7 0x12345678 ! 2, secu_prot_cmd K0 7 0x12345678 ! 3]
        = (1 :: 16 word)
   \<and> word_rcat [secu_prot_cmd K0 7 0x12345678 ! 6, secu_prot_cmd K0 7 0x12345678 ! 7,
                 secu_prot_cmd K0 7 0x12345678 ! 8, secu_prot_cmd K0 7 0x12345678 ! 9]
        = (0x12345678 :: 32 word)"
proof -
  let ?E = "E0 (plain_reply 0 [1, 2, 3, 4])"
  let ?s = "st1 [4, 0, 0, 0, 2, 0, 0, 0, 0xaa, 0xbb, 0, 0]"
  have w: "(if wlun_clr_uac (host ?s)
          then map_option (\<lambda>f. snd (f ?s (SCSI_UFS_REQUEST_SENSE K0) 0)) (hostt_ioctl ?E)
          else Some ?s) = Some ?s"
    by (simp add: st1_def st0_def host0_def)
  have l: "(if (7 :: int) = SCSI_IOCTL_SECURITY_PROTOCOL_IN K0
          then deref_user32 (umem ?s) 16 else deref_user32 (umem ?s) (16 + 4)) = Some 4"
    by (simp add: K0_values deref_user32_def load_mem1 of_le32_bytes word_rcat_def)
  have c: "(7 :: int) = SCSI_IOCTL_SECURITY_PROTOCOL_IN K0
            \<or> (7 :: int) = SCSI_IOCTL_SECURITY_PROTOCOL_OUT K0"
    by (simp add: K0_values)
  note T = secu_prot_cdb_layout [where K = K0 and E = ?E and s = ?s and ?s1.0 = ?s and cmd = 7
      and arg = 16 and len = 4 and t_len = "0x12345678"]
  have g1: "scsi_ioctl K0 ?E ?s 7 16 =
     ioctl_secu_prot_command K0 ?E ?s (secu_prot_cmd K0 7 4) 7 16 15000 5"
    using mp [OF T [THEN conjunct1] conjI [OF K0_ioctl_numbers conjI [OF c conjI [OF w l]]]]
    by (simp add: K0_values NORMAL_RETRIES_def)
  from T [THEN conjunct2] have g2:
    "length (secu_prot_cmd K0 7 0x12345678) = 16
     \<and> secu_prot_cmd K0 7 0x12345678 ! 0 = 0xa2
     \<and> secu_prot_cmd K0 7 0x12345678 ! 1 = 0xec
     \<and> word_rcat [secu_prot_cmd K0 7 0x12345678 ! 2, secu_prot_cmd K0 7 0x12345678 ! 3]
          = (1 :: 16 word)
     \<and> word_rcat [secu_prot_cmd K0 7 0x12345678 ! 6, secu_prot_cmd K0 7 0x12345678 ! 7,
                   secu_prot_cmd K0 7 0x12345678 ! 8, secu_prot_cmd K0 7 0x12345678 ! 9]
          = (0x12345678 :: 32 word)"
    by (simp add: Let_def K0_values)
  from g1 g2 show ?thesis
    by (intro conjI) simp_all
qed

end
